theory Spec2Isabelle
  imports Complex_Main "HOL-Library.Char_ord" "HOL-Library.List_Lexorder" "HOL-Library.Multiset"
begin

section \<open>Python values\<close>

text \<open>
  The investor profile, the asset snapshot and the evidence of a reason node are Python
  dictionaries with field names as keys. A dictionary is an association list in insertion
  order; a well-formed one has distinct keys. A float is the real number it denotes, or
  one of the infinities, or NaN; arithmetic on finite floats is exact (rounding is outside
  the model, except where an int is converted). An int is unbounded, a string is
  its list of code points (below 256). \<open>PObj s\<close> is any other object, known only by the
  text \<open>s\<close> that \<open>str()\<close> gives for it: it is truthy, hashable, neither iterable nor
  convertible to a float.
\<close>

datatype pyfloat = Finite real | PosInf | NegInf | NaN

datatype pyval =
    PNone
  | PBool bool
  | PInt int
  | PFloat pyfloat
  | PStr string
  | PList "pyval list"
  | PDict "(string \<times> pyval) list"
  | PObj string

type_synonym pydict = "(string \<times> pyval) list"

datatype error = AttributeError | TypeError | ValueError | OverflowError | KeyError | OSError

text \<open>
  What the interpreter and the standard library provide and the repository only calls:
  the SHA-256 hex digest of a text, the \<open>repr\<close> of a finite float, \<open>float()\<close> of a
  string (\<open>None\<close> where it raises ValueError; it may give an infinity or NaN), \<open>float()\<close>
  of an int beyond \<open>2^53\<close> in absolute value (the nearest float, \<open>None\<close> where it raises
  OverflowError) and \<open>str()\<close> of a list or dictionary.
\<close>

record platform =
  sha256_hexdigest :: "string \<Rightarrow> string"
  float_repr :: "real \<Rightarrow> string"
  float_of_str :: "string \<Rightarrow> pyfloat option"
  float_of_large_int :: "int \<Rightarrow> real option"
  container_str :: "pyval \<Rightarrow> string"

fun truthy :: "pyval \<Rightarrow> bool" where
  "truthy PNone = False"
| "truthy (PBool b) = b"
| "truthy (PInt i) = (i \<noteq> 0)"
| "truthy (PFloat f) = (f \<noteq> Finite 0)"
| "truthy (PStr s) = (s \<noteq> [])"
| "truthy (PList xs) = (xs \<noteq> [])"
| "truthy (PDict d) = (d \<noteq> [])"
| "truthy (PObj s) = True"

text \<open>\<open>a or b\<close>: the first operand when it is truthy, the second otherwise.\<close>

definition py_or :: "pyval \<Rightarrow> pyval \<Rightarrow> pyval" where
  "py_or a b = (if truthy a then a else b)"

text \<open>\<open>d.get(k)\<close>: None for a missing key.\<close>

definition dict_get :: "pydict \<Rightarrow> string \<Rightarrow> pyval" where
  "dict_get d k = (case map_of d k of None \<Rightarrow> PNone | Some v \<Rightarrow> v)"

text \<open>\<open>d.get(k, default)\<close>.\<close>

definition dict_get_default :: "pydict \<Rightarrow> string \<Rightarrow> pyval \<Rightarrow> pyval" where
  "dict_get_default d k dflt = (case map_of d k of None \<Rightarrow> dflt | Some v \<Rightarrow> v)"

text \<open>
  \<open>float(v)\<close>. An int up to \<open>2^53\<close> in absolute value is converted exactly; a larger
  one is rounded or raises OverflowError, as the platform says.
\<close>

fun py_float :: "platform \<Rightarrow> pyval \<Rightarrow> error + pyfloat" where
  "py_float P PNone = Inl TypeError"
| "py_float P (PBool b) = Inr (Finite (if b then 1 else 0))"
| "py_float P (PInt i) =
     (if \<bar>i\<bar> \<le> 9007199254740992 then Inr (Finite (of_int i))
      else (case float_of_large_int P i of
              None \<Rightarrow> Inl OverflowError
            | Some r \<Rightarrow> Inr (Finite r)))"
| "py_float P (PFloat f) = Inr f"
| "py_float P (PStr s) = (case float_of_str P s of None \<Rightarrow> Inl ValueError | Some f \<Rightarrow> Inr f)"
| "py_float P (PList xs) = Inl TypeError"
| "py_float P (PDict d) = Inl TypeError"
| "py_float P (PObj s) = Inl TypeError"

text \<open>
  Comparing floats: every comparison with NaN is false. \<open>a <= b\<close> is \<open>float_le a b\<close>,
  \<open>a > b\<close> is \<open>float_less b a\<close>.
\<close>

fun float_le :: "pyfloat \<Rightarrow> pyfloat \<Rightarrow> bool" where
  "float_le NaN b = False"
| "float_le a NaN = False"
| "float_le NegInf b = True"
| "float_le a PosInf = True"
| "float_le (Finite x) (Finite y) = (x \<le> y)"
| "float_le (Finite x) NegInf = False"
| "float_le PosInf b = False"

fun float_less :: "pyfloat \<Rightarrow> pyfloat \<Rightarrow> bool" where
  "float_less NaN b = False"
| "float_less a NaN = False"
| "float_less (Finite x) (Finite y) = (x < y)"
| "float_less NegInf NegInf = False"
| "float_less NegInf b = True"
| "float_less PosInf b = False"
| "float_less (Finite x) PosInf = True"
| "float_less (Finite x) NegInf = False"

text \<open>\<open>max(a, b)\<close> of two arguments: the second only when it is greater than the first.\<close>

definition py_max :: "pyfloat \<Rightarrow> pyfloat \<Rightarrow> pyfloat" where
  "py_max a b = (if float_less a b then b else a)"

text \<open>\<open>a / d\<close> for a finite positive constant \<open>d\<close>.\<close>

fun float_div :: "pyfloat \<Rightarrow> real \<Rightarrow> pyfloat" where
  "float_div (Finite x) d = Finite (x / d)"
| "float_div a d = a"

text \<open>Iterating a value, as a \<open>for\<close> clause does: a dictionary gives its keys.\<close>

fun py_iter :: "pyval \<Rightarrow> error + pyval list" where
  "py_iter (PList xs) = Inr xs"
| "py_iter (PStr s) = Inr (map (\<lambda>c. PStr [c]) s)"
| "py_iter (PDict d) = Inr (map (\<lambda>kv. PStr (fst kv)) d)"
| "py_iter v = Inl TypeError"

subsection \<open>Strings\<close>

definition py_isspace :: "char \<Rightarrow> bool" where
  "py_isspace c = ((of_char c :: nat) \<in> {9, 10, 11, 12, 13, 28, 29, 30, 31, 32, 133, 160})"

definition py_strip :: "string \<Rightarrow> string" where
  "py_strip s = rev (dropWhile py_isspace (rev (dropWhile py_isspace s)))"

definition lower_char :: "char \<Rightarrow> char" where
  "lower_char c =
     (let n = (of_char c :: nat)
      in if (65 \<le> n \<and> n \<le> 90) \<or> (192 \<le> n \<and> n \<le> 222 \<and> n \<noteq> 215)
         then char_of (n + 32) else c)"

definition py_lower :: "string \<Rightarrow> string" where
  "py_lower s = map lower_char s"

text \<open>\<open>v.lower()\<close> and \<open>v.strip().lower()\<close>: only a string has the methods.\<close>

fun method_lower :: "pyval \<Rightarrow> error + string" where
  "method_lower (PStr s) = Inr (py_lower s)"
| "method_lower v = Inl AttributeError"

fun method_strip_lower :: "pyval \<Rightarrow> error + string" where
  "method_strip_lower (PStr s) = Inr (py_lower (py_strip s))"
| "method_strip_lower v = Inl AttributeError"

text \<open>A list comprehension over a body that may raise: the first exception leaves it.\<close>

fun map_raise :: "('a \<Rightarrow> error + 'b) \<Rightarrow> 'a list \<Rightarrow> error + 'b list" where
  "map_raise f [] = Inr []"
| "map_raise f (x # xs) =
     (case f x of
        Inl e \<Rightarrow> Inl e
      | Inr y \<Rightarrow> (case map_raise f xs of Inl e \<Rightarrow> Inl e | Inr ys \<Rightarrow> Inr (y # ys)))"

text \<open>\<open>str(v)\<close>, as an f-string uses it.\<close>

definition digit_char :: "nat \<Rightarrow> char" where
  "digit_char d = char_of (48 + d)"

fun nat_str :: "nat \<Rightarrow> string" where
  "nat_str n = (if n < 10 then [digit_char n] else nat_str (n div 10) @ [digit_char (n mod 10)])"

definition int_str :: "int \<Rightarrow> string" where
  "int_str i = (if i < 0 then CHR ''-'' # nat_str (nat (- i)) else nat_str (nat i))"

fun py_str :: "platform \<Rightarrow> pyval \<Rightarrow> string" where
  "py_str P PNone = ''None''"
| "py_str P (PBool b) = (if b then ''True'' else ''False'')"
| "py_str P (PInt i) = int_str i"
| "py_str P (PFloat f) =
     (case f of Finite r \<Rightarrow> float_repr P r | PosInf \<Rightarrow> ''inf'' | NegInf \<Rightarrow> ''-inf''
      | NaN \<Rightarrow> ''nan'')"
| "py_str P (PStr s) = s"
| "py_str P (PObj s) = s"
| "py_str P v = container_str P v"

section \<open>Helpers (utils/helpers.py, utils/config.py)\<close>

subsection \<open>The JSON encoder, as \<open>json.dumps(obj, sort_keys=True, default=str)\<close> runs it\<close>

definition hex_char :: "nat \<Rightarrow> char" where
  "hex_char d = (if d < 10 then char_of (48 + d) else char_of (87 + d))"

definition json_escape_char :: "char \<Rightarrow> string" where
  "json_escape_char c =
     (let n = (of_char c :: nat)
      in if n = 34 then [CHR 0x5C, CHR 0x22]
         else if n = 92 then [CHR 0x5C, CHR 0x5C]
         else if n = 10 then [CHR 0x5C, CHR ''n'']
         else if n = 13 then [CHR 0x5C, CHR ''r'']
         else if n = 9 then [CHR 0x5C, CHR ''t'']
         else if n = 8 then [CHR 0x5C, CHR ''b'']
         else if n = 12 then [CHR 0x5C, CHR ''f'']
         else if n < 32 \<or> 126 < n
           then [CHR 0x5C, CHR ''u'', CHR ''0'', CHR ''0'', hex_char (n div 16), hex_char (n mod 16)]
         else [c])"

definition json_string :: "string \<Rightarrow> string" where
  "json_string s = [CHR 0x22] @ concat (map json_escape_char s) @ [CHR 0x22]"

fun join_with :: "string \<Rightarrow> string list \<Rightarrow> string" where
  "join_with sep [] = []"
| "join_with sep [x] = x"
| "join_with sep (x # y # ys) = x @ sep @ join_with sep (y # ys)"

text \<open>
  With \<open>indent\<close> unset the items are separated by a comma and a space and nothing is put
  after an opening or before a closing bracket; with \<open>indent=n\<close> by a comma and a line
  break followed by \<open>n\<close> spaces for each level.
\<close>

definition newline_indent :: "nat option \<Rightarrow> nat \<Rightarrow> string" where
  "newline_indent ind lvl = (case ind of None \<Rightarrow> [] | Some n \<Rightarrow> CHR 0x0A # replicate (n * lvl) CHR '' '')"

definition item_separator :: "nat option \<Rightarrow> nat \<Rightarrow> string" where
  "item_separator ind lvl = (case ind of None \<Rightarrow> '', '' | Some n \<Rightarrow> '','' @ newline_indent ind lvl)"

function json_encode :: "platform \<Rightarrow> nat option \<Rightarrow> nat \<Rightarrow> pyval \<Rightarrow> string" where
  "json_encode P ind lvl PNone = ''null''"
| "json_encode P ind lvl (PBool b) = (if b then ''true'' else ''false'')"
| "json_encode P ind lvl (PInt i) = int_str i"
| "json_encode P ind lvl (PFloat f) =
     (case f of Finite r \<Rightarrow> float_repr P r | PosInf \<Rightarrow> ''Infinity''
      | NegInf \<Rightarrow> ''-Infinity'' | NaN \<Rightarrow> ''NaN'')"
| "json_encode P ind lvl (PStr s) = json_string s"
| "json_encode P ind lvl (PObj s) = json_string s"
| "json_encode P ind lvl (PList xs) =
     (if xs = [] then ''[]''
      else ''['' @ newline_indent ind (Suc lvl)
           @ join_with (item_separator ind (Suc lvl)) (map (json_encode P ind (Suc lvl)) xs)
           @ newline_indent ind lvl @ '']'')"
| "json_encode P ind lvl (PDict d) =
     (if d = [] then ''{}''
      else ''{'' @ newline_indent ind (Suc lvl)
           @ join_with (item_separator ind (Suc lvl))
               (map (\<lambda>kv. json_string (fst kv) @ '': '' @ json_encode P ind (Suc lvl) (snd kv))
                    (sort_key fst d))
           @ newline_indent ind lvl @ ''}'')"
  by pat_completeness auto

termination json_encode
proof (relation "measure (\<lambda>(P, ind, lvl, v). size v)", goal_cases)
  case 1
  show ?case by simp
next
  case (2 P ind lvl xs x)
  have "y \<in> set ys \<Longrightarrow> size y < Suc (size_list size ys)" for y :: pyval and ys
    by (induction ys) auto
  with 2 show ?case by simp
next
  case (3 P ind lvl d kv)
  have "e \<in> set es \<Longrightarrow> size (snd e) < Suc (size_list (size_prod (\<lambda>_. 0) size) es)"
    for e :: "string \<times> pyval" and es
    by (induction es) (auto simp: less_Suc_eq_le)
  with 3 show ?case by simp
qed

definition sha256_of_obj :: "platform \<Rightarrow> pyval \<Rightarrow> string" where
  "sha256_of_obj P obj = sha256_hexdigest P (json_encode P None 0 obj)"

definition pretty_json :: "platform \<Rightarrow> pyval \<Rightarrow> string" where
  "pretty_json P obj = json_encode P (Some 2) 0 obj"

subsection \<open>The world outside: clock, files, log\<close>

datatype log_event =
    RuleException string pyval error
  | ProvenanceWritten pyval string
  | WriteFailed string error
  | ProvenanceFailed pyval error
  | DecisionLogged pyval string real

text \<open>
  \<open>clock\<close> gives the successive readings of \<open>int(time.time())\<close>, \<open>writable\<close> says
  for which paths \<open>open(path, "w")\<close> succeeds, \<open>provenance_dir\<close> is the value of
  \<open>PROVENANCE_DIR\<close> that the configuration read from the environment.
\<close>

record world =
  clock :: "nat \<Rightarrow> int"
  ticks :: nat
  files :: "string \<Rightarrow> string option"
  writable :: "string \<Rightarrow> bool"
  provenance_dir :: string
  logged :: "log_event list"

definition timestamp_secs :: "world \<Rightarrow> int \<times> world" where
  "timestamp_secs w = (clock w (ticks w), w\<lparr>ticks := Suc (ticks w)\<rparr>)"

definition write_file :: "world \<Rightarrow> string \<Rightarrow> string \<Rightarrow> error + world" where
  "write_file w path content =
     (if writable w path then Inr (w\<lparr>files := (files w)(path \<mapsto> content)\<rparr>) else Inl OSError)"

definition log_event :: "log_event \<Rightarrow> world \<Rightarrow> world" where
  "log_event ev w = w\<lparr>logged := logged w @ [ev]\<rparr>"

definition os_path_join :: "string \<Rightarrow> string \<Rightarrow> string" where
  "os_path_join a b =
     (case b of
        CHR ''/'' # rest \<Rightarrow> b
      | _ \<Rightarrow> if a = [] \<or> last a = CHR ''/'' then a @ b else a @ ''/'' @ b)"

section \<open>The provenance recorder (provenance/provenance.py)\<close>

definition record_provenance_blob ::
  "platform \<Rightarrow> world \<Rightarrow> pydict \<Rightarrow> pyval \<Rightarrow> error + (pydict \<times> world)" where
  "record_provenance_blob P w raw_api_response tag =
     (let (ts, w1) = timestamp_secs w;
          hash = sha256_of_obj P (PDict raw_api_response);
          symbol = py_or (dict_get raw_api_response ''symbol'') (dict_get raw_api_response ''id'');
          entry = PDict [(''timestamp'', PInt ts),
                         (''source'', dict_get_default raw_api_response ''source'' (PStr ''unknown'')),
                         (''symbol'', symbol),
                         (''hash'', PStr hash),
                         (''raw'', PDict raw_api_response),
                         (''tag'', tag)];
          filename = py_str P symbol @ ''_'' @ int_str ts @ ''.json'';
          path = os_path_join (provenance_dir w1) filename;
          w2 = (case write_file w1 path (pretty_json P entry) of
                  Inr w' \<Rightarrow> log_event (ProvenanceWritten symbol hash) w'
                | Inl e \<Rightarrow> log_event (WriteFailed path e) w1)
      in Inr ([(''symbol'', symbol), (''hash'', PStr hash), (''path'', PStr path),
               (''timestamp'', PInt ts)], w2))"

section \<open>The rule chain (metta\_shim.py)\<close>

datatype outcome = Accept | Reject | Deprioritize

text \<open>
  What a rule function returns: the dictionary \<open>{"outcome": None}\<close> is \<open>no_outcome\<close>;
  a field that the dictionary does not have is \<open>None\<close>.
\<close>

record rule_result =
  res_outcome :: "outcome option"
  res_rule :: "string option"
  res_evidence :: pyval
  res_confidence :: "real option"
  res_note :: "string option"

definition no_outcome :: rule_result where
  "no_outcome = \<lparr>res_outcome = None, res_rule = None, res_evidence = PNone,
                  res_confidence = None, res_note = None\<rparr>"

text \<open>The table \<open>RISK_THRESHOLDS\<close>: a row is (max\_volatility, min\_return).\<close>

definition RISK_THRESHOLDS :: "(string \<times> real \<times> real) list" where
  "RISK_THRESHOLDS =
     [(''low'', (0.15, 0.03)), (''medium'', (0.30, 0.06)), (''high'', (0.60, 0.12))]"

definition thresholds_dict :: "real \<times> real \<Rightarrow> pyval" where
  "thresholds_dict t =
     PDict [(''max_volatility'', PFloat (Finite (fst t))), (''min_return'', PFloat (Finite (snd t)))]"

definition rule_exclude_industry :: "pydict \<Rightarrow> pydict \<Rightarrow> error + rule_result" where
  "rule_exclude_industry investor asset =
     (let excluded = py_or (dict_get investor ''excluded_industries'') (PList []);
          sector = py_or (dict_get_default asset ''sector'' (PStr [])) (PStr [])
      in if \<not> truthy excluded then Inr no_outcome
         else
           (case method_lower sector of
              Inl e \<Rightarrow> Inl e
            | Inr low \<Rightarrow>
               (case py_iter excluded of
                  Inl e \<Rightarrow> Inl e
                | Inr entries \<Rightarrow>
                   (case map_raise method_strip_lower entries of
                      Inl e \<Rightarrow> Inl e
                    | Inr names \<Rightarrow>
                       if low \<in> set names
                       then Inr \<lparr>res_outcome = Some Reject,
                                 res_rule = Some ''exclude_by_industry'',
                                 res_evidence =
                                   PDict [(''sector'', sector), (''excluded'', excluded)],
                                 res_confidence = Some 0.95,
                                 res_note = Some (''Asset sector '' @ [CHR 0x27]
                                   @ (case sector of PStr s \<Rightarrow> s | _ \<Rightarrow> [])
                                   @ [CHR 0x27] @ '' matches investor excluded industries'')\<rparr>
                       else Inr no_outcome))))"

definition rule_exclude_by_carbon :: "platform \<Rightarrow> pydict \<Rightarrow> pydict \<Rightarrow> error + rule_result" where
  "rule_exclude_by_carbon P investor asset =
     (let max_carbon = dict_get investor ''max_carbon_score'';
          asset_carbon = py_or (dict_get asset ''carbon_emissions'') (dict_get asset ''carbon_score'')
      in if max_carbon = PNone \<or> asset_carbon = PNone then Inr no_outcome
         else
           (case py_float P asset_carbon of
              Inl e \<Rightarrow> Inr no_outcome
            | Inr ac \<Rightarrow>
               (case py_float P max_carbon of
                  Inl e \<Rightarrow> Inl e
                | Inr limit \<Rightarrow>
                   if float_less limit ac
                   then Inr \<lparr>res_outcome = Some Reject,
                             res_rule = Some ''exclude_by_carbon'',
                             res_evidence =
                               PDict [(''carbon'', PFloat ac), (''max_allowed'', max_carbon)],
                             res_confidence = Some 0.9,
                             res_note = Some (''Asset carbon '' @ py_str P (PFloat ac)
                               @ '' > investor max '' @ py_str P max_carbon)\<rparr>
                   else Inr no_outcome)))"

definition rule_recent_large_drop :: "platform \<Rightarrow> pydict \<Rightarrow> pydict \<Rightarrow> error + rule_result" where
  "rule_recent_large_drop P investor asset =
     (let pct = dict_get asset ''percent_change''
      in if pct = PNone then Inr no_outcome
         else
           (case py_float P pct of
              Inl e \<Rightarrow> Inr no_outcome
            | Inr x \<Rightarrow>
               if float_le x (Finite (- 5))
               then Inr \<lparr>res_outcome = Some Deprioritize,
                         res_rule = Some ''recent_large_drop'',
                         res_evidence = PDict [(''percent_change'', pct)],
                         res_confidence = Some 0.7,
                         res_note = Some ''Asset dropped more than 5% recently''\<rparr>
               else Inr no_outcome))"

text \<open>
  \<open>RISK_THRESHOLDS.get(risk, RISK_THRESHOLDS["medium"])\<close>: hashing a list or a dictionary
  raises TypeError; any other key that the table does not have gives the medium row.
\<close>

definition thresholds_for :: "pyval \<Rightarrow> error + real \<times> real" where
  "thresholds_for risk =
     (case map_of RISK_THRESHOLDS ''medium'' of
        None \<Rightarrow> Inl KeyError
      | Some medium \<Rightarrow>
         (case risk of
            PStr s \<Rightarrow> Inr (case map_of RISK_THRESHOLDS s of None \<Rightarrow> medium | Some row \<Rightarrow> row)
          | PList xs \<Rightarrow> Inl TypeError
          | PDict d \<Rightarrow> Inl TypeError
          | _ \<Rightarrow> Inr medium))"

text \<open>\<open>float(v) if v is not None else None\<close> inside \<open>try\<close>, with \<open>None\<close> in \<open>except\<close>.\<close>

definition float_or_none :: "platform \<Rightarrow> pyval \<Rightarrow> pyfloat option" where
  "float_or_none P v =
     (if v \<noteq> PNone then (case py_float P v of Inl e \<Rightarrow> None | Inr r \<Rightarrow> Some r) else None)"

definition rule_return_and_risk :: "platform \<Rightarrow> pydict \<Rightarrow> pydict \<Rightarrow> error + rule_result" where
  "rule_return_and_risk P investor asset =
     (let risk = dict_get_default investor ''risk_tolerance'' (PStr ''medium'')
      in case thresholds_for risk of
           Inl e \<Rightarrow> Inl e
         | Inr thresholds \<Rightarrow>
            (let expected_return = dict_get asset ''expected_return'';
                 volatility = py_or (py_or (dict_get asset ''volatility'') (dict_get asset ''beta''))
                                    (dict_get asset ''stddev'');
                 pct = dict_get asset ''percent_change'';
                 derived =
                   (if expected_return = PNone
                    then (if pct \<noteq> PNone
                          then (case py_float P pct of
                                  Inl e \<Rightarrow> Inl e
                                | Inr x \<Rightarrow> Inr (PFloat (py_max (float_div x 100) (Finite 0))))
                          else Inr expected_return)
                    else Inr expected_return)
             in case derived of
                  Inl e \<Rightarrow> Inl e
                | Inr expected_return' \<Rightarrow>
                   (let exp_r = float_or_none P expected_return';
                        vol = float_or_none P volatility
                    in case exp_r of
                         None \<Rightarrow> Inr no_outcome
                       | Some er \<Rightarrow>
                          (let evidence =
                                 PDict [(''expected_return'', PFloat er),
                                        (''volatility'',
                                           (case vol of None \<Rightarrow> PNone | Some v \<Rightarrow> PFloat v)),
                                        (''thresholds'', thresholds_dict thresholds)]
                           in if float_le (Finite (snd thresholds)) er
                                 \<and> (case vol of None \<Rightarrow> True
                                    | Some v \<Rightarrow> float_le v (Finite (fst thresholds)))
                              then Inr \<lparr>res_outcome = Some Accept,
                                        res_rule = Some ''accept_by_return_and_risk'',
                                        res_evidence = evidence,
                                        res_confidence = Some 0.8,
                                        res_note =
                                          Some ''Meets expected return and volatility thresholds''\<rparr>
                              else Inr \<lparr>res_outcome = Some Deprioritize,
                                        res_rule = Some ''deprioritize_by_return_or_risk'',
                                        res_evidence = evidence,
                                        res_confidence = Some 0.6,
                                        res_note =
                                          Some ''Fails return / volatility requirements''\<rparr>))))"

text \<open>A rule function with its \<open>__name__\<close>; \<open>RULES\<close> is the ordered list the loop reads.\<close>

record rule =
  rule_name :: string
  rule_fn :: "pydict \<Rightarrow> pydict \<Rightarrow> error + rule_result"

definition RULES :: "platform \<Rightarrow> rule list" where
  "RULES P =
     [\<lparr>rule_name = ''_rule_exclude_industry'', rule_fn = rule_exclude_industry\<rparr>,
      \<lparr>rule_name = ''_rule_exclude_by_carbon'', rule_fn = rule_exclude_by_carbon P\<rparr>,
      \<lparr>rule_name = ''_rule_recent_large_drop'', rule_fn = rule_recent_large_drop P\<rparr>,
      \<lparr>rule_name = ''_rule_return_and_risk'', rule_fn = rule_return_and_risk P\<rparr>]"

section \<open>The decision aggregator (evaluate\_asset)\<close>

record node =
  node_rule :: string
  node_outcome :: outcome
  node_evidence :: pyval
  node_note :: "string option"
  node_confidence :: real

record decision =
  d_asset :: pyval
  d_decision :: outcome
  d_score :: real
  d_reason_tree :: "node list"
  d_confidence :: real
  d_provenance :: "pydict option"
  d_timestamp :: int

text \<open>The local variables of the loop, and the errors it has logged.\<close>

record eval_state =
  reason_tree :: "node list"
  final_decision :: "outcome option"
  final_confidence :: real
  events :: "log_event list"

definition initial_state :: eval_state where
  "initial_state = \<lparr>reason_tree = [], final_decision = None, final_confidence = 0, events = []\<rparr>"

definition make_node :: "rule \<Rightarrow> rule_result \<Rightarrow> outcome \<Rightarrow> node" where
  "make_node r res oc =
     \<lparr>node_rule = (case res_rule res of None \<Rightarrow> rule_name r | Some name \<Rightarrow> name),
      node_outcome = oc,
      node_evidence = res_evidence res,
      node_note = res_note res,
      node_confidence = (case res_confidence res of None \<Rightarrow> 0.5 | Some c \<Rightarrow> c)\<rparr>"

text \<open>
  The body of the loop from \<open>reason_tree.append(node)\<close> on; the flag is True where the
  source leaves the loop with \<open>break\<close>.
\<close>

definition apply_node :: "eval_state \<Rightarrow> node \<Rightarrow> eval_state \<times> bool" where
  "apply_node st n =
     (let st1 = st\<lparr>reason_tree := reason_tree st @ [n]\<rparr>
      in if node_outcome n = Reject
         then (st1\<lparr>final_decision := Some Reject,
                    final_confidence := max (final_confidence st1) (node_confidence n)\<rparr>, True)
         else
           (let st2 = (if node_outcome n = Accept \<and> final_decision st1 \<noteq> Some Accept
                       then st1\<lparr>final_decision := Some Accept,
                                 final_confidence := max (final_confidence st1) (node_confidence n)\<rparr>
                       else st1);
                st3 = (if node_outcome n = Deprioritize
                          \<and> final_decision st2 \<noteq> Some Accept \<and> final_decision st2 \<noteq> Some Reject
                       then st2\<lparr>final_decision := Some Deprioritize,
                                 final_confidence := max (final_confidence st2) (node_confidence n)\<rparr>
                       else st2)
            in (st3, False)))"

fun run_rules :: "rule list \<Rightarrow> pydict \<Rightarrow> pydict \<Rightarrow> pyval \<Rightarrow> eval_state \<Rightarrow> eval_state" where
  "run_rules [] investor asset symbol st = st"
| "run_rules (r # rs) investor asset symbol st =
     (case rule_fn r investor asset of
        Inl e \<Rightarrow>
          run_rules rs investor asset symbol
            (st\<lparr>events := events st @ [RuleException (rule_name r) symbol e]\<rparr>)
      | Inr res \<Rightarrow>
         (case res_outcome res of
            None \<Rightarrow> run_rules rs investor asset symbol st
          | Some oc \<Rightarrow>
             (case apply_node st (make_node r res oc) of
                (st', stop) \<Rightarrow> if stop then st' else run_rules rs investor asset symbol st')))"

definition default_node :: node where
  "default_node =
     \<lparr>node_rule = ''default_deprioritize'', node_outcome = Deprioritize, node_evidence = PNone,
      node_note = Some ''No rules strongly matched; default deprioritize'',
      node_confidence = 0.2\<rparr>"

definition decision_weight :: "outcome \<Rightarrow> real" where
  "decision_weight oc = (case oc of Accept \<Rightarrow> 1.0 | Deprioritize \<Rightarrow> 0.5 | Reject \<Rightarrow> 0.0)"

definition outcome_str :: "outcome \<Rightarrow> string" where
  "outcome_str oc = (case oc of Accept \<Rightarrow> ''accept'' | Reject \<Rightarrow> ''reject'' | Deprioritize \<Rightarrow> ''deprioritize'')"

text \<open>
  \<open>evaluate_asset\<close>, reading the list of rules it is given; the module runs it on \<open>RULES\<close>.
\<close>

definition evaluate_with ::
  "platform \<Rightarrow> rule list \<Rightarrow> world \<Rightarrow> pydict \<Rightarrow> pydict \<Rightarrow> bool \<Rightarrow> decision \<times> world" where
  "evaluate_with P rules w investor asset record_provenance =
     (let symbol = py_or (py_or (dict_get asset ''symbol'') (dict_get asset ''id'')) (PStr ''UNKNOWN'');
          st = run_rules rules investor asset symbol initial_state;
          w1 = w\<lparr>logged := logged w @ events st\<rparr>;
          (decided, conf, tree) =
            (case final_decision st of
               None \<Rightarrow> (Deprioritize, 0.2, reason_tree st @ [default_node])
             | Some oc \<Rightarrow> (oc, final_confidence st, reason_tree st));
          score = decision_weight decided * conf;
          (provenance_entry, w2) =
            (if record_provenance
             then (case record_provenance_blob P w1 asset (PStr ''metta_input'') of
                     Inr (receipt, w') \<Rightarrow> (Some receipt, w')
                   | Inl e \<Rightarrow> (None, log_event (ProvenanceFailed symbol e) w1))
             else (None, w1));
          (ts, w3) = timestamp_secs w2
      in (\<lparr>d_asset = symbol, d_decision = decided, d_score = score, d_reason_tree = tree,
            d_confidence = conf, d_provenance = provenance_entry, d_timestamp = ts\<rparr>,
          log_event (DecisionLogged symbol (outcome_str decided) score) w3))"

definition evaluate_asset ::
  "platform \<Rightarrow> world \<Rightarrow> pydict \<Rightarrow> pydict \<Rightarrow> bool \<Rightarrow> decision \<times> world" where
  "evaluate_asset P w investor asset record_provenance =
     evaluate_with P (RULES P) w investor asset record_provenance"

section \<open>Notions the properties are stated with\<close>

text \<open>The part of the loop state that the decision is computed from (the log left out).\<close>

definition verdict :: "eval_state \<Rightarrow> node list \<times> outcome option \<times> real" where
  "verdict st = (reason_tree st, final_decision st, final_confidence st)"

text \<open>A dictionary without the key \<open>k\<close>: the field is absent.\<close>

definition dict_del :: "pydict \<Rightarrow> string \<Rightarrow> pydict" where
  "dict_del d k = filter (\<lambda>kv. fst kv \<noteq> k) d"



text \<open>
  The nodes of the rules of a list that give an outcome on an input, in the order of the
  list: a rule that raises, or gives no outcome, has none. \<open>until_reject\<close> cuts a list
  of nodes after its first reject node, and \<open>apply_nodes\<close> runs the aggregation step over
  a list of nodes.
\<close>

fun emitted :: "rule list \<Rightarrow> pydict \<Rightarrow> pydict \<Rightarrow> node list" where
  "emitted [] investor asset = []"
| "emitted (r # rs) investor asset =
     (case rule_fn r investor asset of
        Inl e \<Rightarrow> emitted rs investor asset
      | Inr res \<Rightarrow>
         (case res_outcome res of
            None \<Rightarrow> emitted rs investor asset
          | Some oc \<Rightarrow> make_node r res oc # emitted rs investor asset))"

fun until_reject :: "node list \<Rightarrow> node list" where
  "until_reject [] = []"
| "until_reject (n # ns) = (if node_outcome n = Reject then [n] else n # until_reject ns)"

fun apply_nodes :: "eval_state \<Rightarrow> node list \<Rightarrow> eval_state" where
  "apply_nodes st [] = st"
| "apply_nodes st (n # ns) = apply_nodes (fst (apply_node st n)) ns"

text \<open>
  The outcome of a rule call (none where it raised), a field of the evidence it recorded,
  and what the return-and-risk and carbon rules record for a value they convert with
  \<open>float\<close>: the float, or None where the value is None or does not convert.
\<close>

definition outcome_of :: "error + rule_result \<Rightarrow> outcome option" where
  "outcome_of x = (case x of Inl e \<Rightarrow> None | Inr res \<Rightarrow> res_outcome res)"

definition evidence_field :: "error + rule_result \<Rightarrow> string \<Rightarrow> pyval option" where
  "evidence_field x k =
     (case x of
        Inl e \<Rightarrow> None
      | Inr res \<Rightarrow> (case res_evidence res of PDict d \<Rightarrow> map_of d k | _ \<Rightarrow> None))"

definition float_evidence :: "platform \<Rightarrow> pyval \<Rightarrow> pyval" where
  "float_evidence P v = (case float_or_none P v of None \<Rightarrow> PNone | Some f \<Rightarrow> PFloat f)"

text \<open>
  A value with the entries of every dictionary in it, at any depth, sorted by key: two
  values with the same \<open>sorted_keys\<close> differ at most in the order in which their
  dictionaries were filled.
\<close>

function sorted_keys :: "pyval \<Rightarrow> pyval" where
  "sorted_keys (PList xs) = PList (map sorted_keys xs)"
| "sorted_keys (PDict d) = PDict (sort_key fst (map (\<lambda>kv. (fst kv, sorted_keys (snd kv))) d))"
| "sorted_keys PNone = PNone"
| "sorted_keys (PBool b) = PBool b"
| "sorted_keys (PInt i) = PInt i"
| "sorted_keys (PFloat r) = PFloat r"
| "sorted_keys (PStr s) = PStr s"
| "sorted_keys (PObj s) = PObj s"
  by pat_completeness auto
termination sorted_keys
proof (relation "measure size", goal_cases)
  case 1
  show ?case by simp
next
  case (2 xs x)
  have "y \<in> set ys \<Longrightarrow> size y < Suc (size_list size ys)" for y :: pyval and ys
    by (induction ys) auto
  with 2 show ?case by simp
next
  case (3 d kv)
  have "e \<in> set es \<Longrightarrow> size (snd e) < Suc (size_list (size_prod (\<lambda>_. 0) size) es)"
    for e :: "string \<times> pyval" and es
    by (induction es) (auto simp: less_Suc_eq_le)
  with 3 show ?case by simp
qed

text \<open>The symbol the evaluation reports: \<open>symbol\<close>, else \<open>id\<close>, else \<open>"UNKNOWN"\<close>.\<close>

definition asset_symbol :: "pydict \<Rightarrow> pyval" where
  "asset_symbol asset =
     py_or (py_or (dict_get asset ''symbol'') (dict_get asset ''id'')) (PStr ''UNKNOWN'')"

text \<open>A rule call that contributes nothing: it raised, or its result has no outcome.\<close>

definition abstains :: "error + rule_result \<Rightarrow> bool" where
  "abstains x = (case x of Inl e \<Rightarrow> True | Inr res \<Rightarrow> res_outcome res = None)"

text \<open>What \<open>hexdigest()\<close> of a SHA-256 object promises: 64 lower-case hexadecimal digits.\<close>

definition hexdigest_contract :: "platform \<Rightarrow> bool" where
  "hexdigest_contract P =
     (\<forall>s. length (sha256_hexdigest P s) = 64
          \<and> set (sha256_hexdigest P s) \<subseteq> set ''0123456789abcdef'')"

text \<open>
  A platform and a world to run examples in: every write fails, no string parses as a
  float, every int beyond \<open>2^53\<close> overflows, the clock starts at 1700000000.
\<close>

definition example_platform :: platform where
  "example_platform =
     \<lparr>sha256_hexdigest = (\<lambda>s. replicate 64 (if even (length s) then CHR ''0'' else CHR ''f'')),
      float_repr = (\<lambda>r. ''<float>''),
      float_of_str = (\<lambda>s. None),
      float_of_large_int = (\<lambda>i. None),
      container_str = (\<lambda>v. ''<container>'')\<rparr>"

definition example_world :: world where
  "example_world =
     \<lparr>clock = (\<lambda>n. 1700000000 + int n), ticks = 0, files = (\<lambda>path. None),
      writable = (\<lambda>path. False), provenance_dir = ''./provenance_logs'', logged = []\<rparr>"

text \<open>
  Scenario B of the specification, and an input on which the carbon rule raises: the
  investor's limit is a text that is no number, so \<open>float(max_carbon)\<close> fails outside
  the \<open>try\<close>.
\<close>

definition scenario_B_investor :: pydict where
  "scenario_B_investor = [(''risk_tolerance'', PStr ''low'')]"

definition scenario_B_asset :: pydict where
  "scenario_B_asset = [(''symbol'', PStr ''ABC''), (''percent_change'', PInt (- 8))]"

definition faulty_investor :: pydict where
  "faulty_investor = [(''max_carbon_score'', PStr ''abc'')]"

definition faulty_asset :: pydict where
  "faulty_asset = [(''symbol'', PStr ''XYZ''), (''carbon_emissions'', PInt 5), (''percent_change'', PInt (- 8))]"

text \<open>
  Scenario A of the specification; the same input with a space after the sector and after
  the excluded entry; and an investor whose only excluded entry is a space, with an asset
  that has no sector.
\<close>

definition padded_investor :: pydict where
  "padded_investor = [(''risk_tolerance'', PStr ''medium''), (''excluded_industries'', PList [PStr ''Tobacco ''])]"

definition padded_asset :: pydict where
  "padded_asset = [(''symbol'', PStr ''XYZ''), (''sector'', PStr ''Tobacco ''), (''percent_change'', PInt 2)]"

definition blank_entry_investor :: pydict where
  "blank_entry_investor = [(''excluded_industries'', PList [PStr '' ''])]"

definition no_sector_asset :: pydict where
  "no_sector_asset = [(''symbol'', PStr ''XYZ'')]"



text \<open>
  An asset whose first fields of both fallback chains are present but falsy: carbon
  emissions 0 with a carbon score of 80, volatility 0 and beta the empty string with a
  standard deviation of 0.9; the investor allows a carbon score of 50 and has low risk
  tolerance.
\<close>

definition falsy_investor :: pydict where
  "falsy_investor = [(''risk_tolerance'', PStr ''low''), (''max_carbon_score'', PFloat (Finite 50))]"

definition falsy_asset :: pydict where
  "falsy_asset = [(''symbol'', PStr ''XYZ''), (''carbon_emissions'', PInt 0), (''carbon_score'', PFloat (Finite 80)),
      (''expected_return'', PFloat (Finite 0.1)), (''volatility'', PInt 0), (''beta'', PStr []),
      (''stddev'', PFloat (Finite 0.9))]"

text \<open>
  An asset with volatility 0, a beta of 0.9 and a standard deviation of 0.05: for the
  low-risk investor the beta is above the limit of 0.15, the other two values are not.
\<close>

definition beta_asset :: pydict where
  "beta_asset = [(''symbol'', PStr ''XYZ''), (''expected_return'', PFloat (Finite 0.1)),
      (''volatility'', PInt 0), (''beta'', PFloat (Finite 0.9)),
      (''stddev'', PFloat (Finite 0.05))]"

text \<open>A snapshot, and the same snapshot with its keys inserted in another order.\<close>

definition ordered_snapshot :: pydict where
  "ordered_snapshot = [(''symbol'', PStr ''ABC''), (''price'', PInt 10), (''source'', PStr ''finnhub'')]"

definition reordered_snapshot :: pydict where
  "reordered_snapshot = [(''source'', PStr ''finnhub''), (''symbol'', PStr ''ABC''), (''price'', PInt 10)]"









section \<open>Facts about the evaluation\<close>

lemmas field_defs = dict_get_def dict_get_default_def py_or_def

lemma record_provenance_blob_result:
  "\<exists>w2. record_provenance_blob P w raw tag =
     Inr ([(''symbol'', py_or (dict_get raw ''symbol'') (dict_get raw ''id'')),
           (''hash'', PStr (sha256_of_obj P (PDict raw))),
           (''path'', PStr (os_path_join (provenance_dir w)
              (py_str P (py_or (dict_get raw ''symbol'') (dict_get raw ''id''))
                 @ ''_'' @ int_str (clock w (ticks w)) @ ''.json''))),
           (''timestamp'', PInt (clock w (ticks w)))], w2)
     \<and> clock w2 = clock w \<and> ticks w2 = Suc (ticks w)"
  by (simp add: record_provenance_blob_def timestamp_secs_def write_file_def log_event_def Let_def)

lemma evaluate_with_decision:
  "d_decision (fst (evaluate_with P rules w investor asset rp)) =
     (case final_decision (run_rules rules investor asset (asset_symbol asset) initial_state)
      of None \<Rightarrow> Deprioritize | Some oc \<Rightarrow> oc)"
  by (simp add: evaluate_with_def asset_symbol_def Let_def split: prod.splits option.splits sum.splits)

lemma evaluate_with_confidence:
  "d_confidence (fst (evaluate_with P rules w investor asset rp)) =
     (case final_decision (run_rules rules investor asset (asset_symbol asset) initial_state)
      of None \<Rightarrow> 0.2
       | Some oc \<Rightarrow> final_confidence (run_rules rules investor asset (asset_symbol asset) initial_state))"
  by (simp add: evaluate_with_def asset_symbol_def Let_def split: prod.splits option.splits sum.splits)

lemma evaluate_with_reason_tree:
  "d_reason_tree (fst (evaluate_with P rules w investor asset rp)) =
     (case final_decision (run_rules rules investor asset (asset_symbol asset) initial_state)
      of None \<Rightarrow> reason_tree (run_rules rules investor asset (asset_symbol asset) initial_state) @ [default_node]
       | Some oc \<Rightarrow> reason_tree (run_rules rules investor asset (asset_symbol asset) initial_state))"
  by (simp add: evaluate_with_def asset_symbol_def Let_def split: prod.splits option.splits sum.splits)

lemma evaluate_with_score:
  "d_score (fst (evaluate_with P rules w investor asset rp)) =
     decision_weight (d_decision (fst (evaluate_with P rules w investor asset rp)))
       * d_confidence (fst (evaluate_with P rules w investor asset rp))"
  by (simp add: evaluate_with_def Let_def split: prod.splits option.splits sum.splits)

lemma evaluate_with_asset:
  "d_asset (fst (evaluate_with P rules w investor asset rp)) = asset_symbol asset"
  by (simp add: evaluate_with_def asset_symbol_def Let_def split: prod.splits option.splits sum.splits)

lemma evaluate_with_provenance:
  "d_provenance (fst (evaluate_with P rules w investor asset rp)) =
     (if rp then Some [(''symbol'', py_or (dict_get asset ''symbol'') (dict_get asset ''id'')),
           (''hash'', PStr (sha256_of_obj P (PDict asset))),
           (''path'', PStr (os_path_join (provenance_dir w)
              (py_str P (py_or (dict_get asset ''symbol'') (dict_get asset ''id''))
                 @ ''_'' @ int_str (clock w (ticks w)) @ ''.json''))),
           (''timestamp'', PInt (clock w (ticks w)))] else None)"
proof -
  define w1 where "w1 = w\<lparr>logged := logged w @ events (run_rules rules investor asset
     (py_or (py_or (dict_get asset ''symbol'') (dict_get asset ''id'')) (PStr ''UNKNOWN'')) initial_state)\<rparr>"
  obtain w2 where r: "record_provenance_blob P w1 asset (PStr ''metta_input'') =
     Inr ([(''symbol'', py_or (dict_get asset ''symbol'') (dict_get asset ''id'')),
           (''hash'', PStr (sha256_of_obj P (PDict asset))),
           (''path'', PStr (os_path_join (provenance_dir w1)
              (py_str P (py_or (dict_get asset ''symbol'') (dict_get asset ''id''))
                 @ ''_'' @ int_str (clock w1 (ticks w1)) @ ''.json''))),
           (''timestamp'', PInt (clock w1 (ticks w1)))], w2)"
    using record_provenance_blob_result [of P w1 asset "PStr ''metta_input''"] by blast
  have w1: "provenance_dir w1 = provenance_dir w" "clock w1 = clock w" "ticks w1 = ticks w"
    by (simp_all add: w1_def)
  show ?thesis
    using r unfolding w1
    by (simp add: evaluate_with_def Let_def w1_def [symmetric] split: prod.splits option.splits)
qed

lemma evaluate_with_timestamp:
  "d_timestamp (fst (evaluate_with P rules w investor asset rp)) =
     clock w (if rp then Suc (ticks w) else ticks w)"
proof -
  define w1 where "w1 = w\<lparr>logged := logged w @ events (run_rules rules investor asset
     (py_or (py_or (dict_get asset ''symbol'') (dict_get asset ''id'')) (PStr ''UNKNOWN'')) initial_state)\<rparr>"
  obtain R w2 where r: "record_provenance_blob P w1 asset (PStr ''metta_input'') = Inr (R, w2)"
     and c: "clock w2 = clock w1" "ticks w2 = Suc (ticks w1)"
    using record_provenance_blob_result [of P w1 asset "PStr ''metta_input''"] by blast
  have w1: "clock w1 = clock w" "ticks w1 = ticks w"
    by (simp_all add: w1_def)
  show ?thesis
    using r c unfolding w1
    by (simp add: evaluate_with_def Let_def w1_def [symmetric] timestamp_secs_def w1 split: prod.splits option.splits)
qed

lemma apply_node_verdict:
  "verdict st = verdict st' \<Longrightarrow>
     verdict (fst (apply_node st n)) = verdict (fst (apply_node st' n))
     \<and> snd (apply_node st n) = snd (apply_node st' n)"
  by (simp add: apply_node_def verdict_def Let_def)

lemma run_rules_verdict:
  "verdict st = verdict st' \<Longrightarrow>
     verdict (run_rules rs investor asset symbol st) = verdict (run_rules rs investor asset symbol' st')"
proof (induction rs arbitrary: st st')
  case Nil
  then show ?case by simp
next
  case (Cons r rs)
  show ?case
  proof (cases "rule_fn r investor asset")
    case (Inl e)
    have "verdict (st\<lparr>events := events st @ [RuleException (rule_name r) symbol e]\<rparr>)
        = verdict (st'\<lparr>events := events st' @ [RuleException (rule_name r) symbol' e]\<rparr>)"
      using Cons.prems by (simp add: verdict_def)
    from Cons.IH [OF this] Inl show ?thesis by simp
  next
    case (Inr res)
    show ?thesis
    proof (cases "res_outcome res")
      case None
      with Inr Cons.IH [OF Cons.prems] show ?thesis by simp
    next
      case (Some oc)
      let ?n = "make_node r res oc"
      from apply_node_verdict [OF Cons.prems, of ?n]
      have v: "verdict (fst (apply_node st ?n)) = verdict (fst (apply_node st' ?n))"
        and s: "snd (apply_node st ?n) = snd (apply_node st' ?n)" by simp_all
      show ?thesis
      proof (cases "snd (apply_node st ?n)")
        case True
        with Inr Some v s show ?thesis by (simp add: split_beta)
      next
        case False
        with Inr Some s Cons.IH [OF v] show ?thesis by (simp add: split_beta)
      qed
    qed
  qed
qed

lemma run_rules_skip_faulting:
  "rule_fn r investor asset = Inl e \<Longrightarrow>
     verdict (run_rules (pre @ r # post) investor asset symbol st)
       = verdict (run_rules (pre @ post) investor asset symbol st)"
proof (induction pre arbitrary: st)
  case Nil
  have "verdict (st\<lparr>events := events st @ [RuleException (rule_name r) symbol e]\<rparr>) = verdict st"
    by (simp add: verdict_def)
  from run_rules_verdict [OF this] Nil show ?case by simp
next
  case (Cons p pre)
  then show ?case
    by (simp add: split_beta split: sum.splits option.splits)
qed

lemma run_rules_no_outcome:
  "\<forall>r \<in> set rs. (case rule_fn r investor asset of Inl e \<Rightarrow> True | Inr res \<Rightarrow> res_outcome res = None) \<Longrightarrow>
     verdict (run_rules rs investor asset symbol st) = verdict st"
proof (induction rs arbitrary: st)
  case Nil
  then show ?case by simp
next
  case (Cons r rs)
  then show ?case
    by (auto simp: verdict_def split: sum.splits option.splits)
qed

lemma apply_node_decided:
  "final_decision (fst (apply_node st n)) \<noteq> None \<and> reason_tree (fst (apply_node st n)) \<noteq> []"
  by (cases "node_outcome n") (auto simp: apply_node_def Let_def)

lemma run_rules_tree_nonempty:
  "(final_decision st \<noteq> None \<longrightarrow> reason_tree st \<noteq> []) \<Longrightarrow>
     final_decision (run_rules rs investor asset symbol st) \<noteq> None \<Longrightarrow>
     reason_tree (run_rules rs investor asset symbol st) \<noteq> []"
proof (induction rs arbitrary: st)
  case Nil
  then show ?case by simp
next
  case (Cons r rs)
  show ?case
  proof (cases "rule_fn r investor asset")
    case (Inl e)
    with Cons.prems Cons.IH [of "st\<lparr>events := events st @ [RuleException (rule_name r) symbol e]\<rparr>"]
    show ?thesis by simp
  next
    case (Inr res)
    show ?thesis
    proof (cases "res_outcome res")
      case None
      with Inr Cons.prems Cons.IH [of st] show ?thesis by simp
    next
      case (Some oc)
      let ?n = "make_node r res oc"
      show ?thesis
      proof (cases "snd (apply_node st ?n)")
        case True
        with Inr Some apply_node_decided [of st ?n] show ?thesis by (simp add: split_beta)
      next
        case False
        with Inr Some Cons.prems(2) Cons.IH [of "fst (apply_node st ?n)"] apply_node_decided [of st ?n]
        show ?thesis by (simp add: split_beta)
      qed
    qed
  qed
qed

lemma evaluate_with_tree_nonempty:
  "d_reason_tree (fst (evaluate_with P rules w investor asset rp)) \<noteq> []"
  using run_rules_tree_nonempty [of initial_state rules investor asset "asset_symbol asset"]
  by (simp add: evaluate_with_reason_tree initial_state_def split: option.splits)

lemma decision_eqI:
  "d_asset x = d_asset y \<Longrightarrow> d_decision x = d_decision y \<Longrightarrow> d_score x = d_score y \<Longrightarrow>
   d_reason_tree x = d_reason_tree y \<Longrightarrow> d_confidence x = d_confidence y \<Longrightarrow>
   d_provenance x = d_provenance y \<Longrightarrow> d_timestamp x = d_timestamp y \<Longrightarrow> x = (y :: decision)"
  by simp

lemma scenario_B_rules:
  "rule_exclude_industry scenario_B_investor scenario_B_asset = Inr no_outcome"
  "rule_exclude_by_carbon P scenario_B_investor scenario_B_asset = Inr no_outcome"
  "rule_recent_large_drop P scenario_B_investor scenario_B_asset =
     Inr \<lparr>res_outcome = Some Deprioritize, res_rule = Some ''recent_large_drop'',
          res_evidence = PDict [(''percent_change'', PInt (- 8))], res_confidence = Some 0.7,
          res_note = Some ''Asset dropped more than 5% recently''\<rparr>"
  "rule_return_and_risk P scenario_B_investor scenario_B_asset =
     Inr \<lparr>res_outcome = Some Deprioritize, res_rule = Some ''deprioritize_by_return_or_risk'',
          res_evidence = PDict [(''expected_return'', PFloat (Finite 0)), (''volatility'', PNone),
             (''thresholds'', PDict [(''max_volatility'', PFloat (Finite 0.15)), (''min_return'', PFloat (Finite 0.03))])],
          res_confidence = Some 0.6,
          res_note = Some ''Fails return / volatility requirements''\<rparr>"
  by (simp_all add: rule_exclude_industry_def rule_exclude_by_carbon_def rule_recent_large_drop_def
        rule_return_and_risk_def field_defs thresholds_for_def RISK_THRESHOLDS_def
        float_or_none_def thresholds_dict_def py_max_def scenario_B_investor_def scenario_B_asset_def)

lemma scenario_B_run:
  "verdict (run_rules (RULES P) scenario_B_investor scenario_B_asset symbol initial_state) =
     ([\<lparr>node_rule = ''recent_large_drop'', node_outcome = Deprioritize,
         node_evidence = PDict [(''percent_change'', PInt (- 8))],
         node_note = Some ''Asset dropped more than 5% recently'', node_confidence = 0.7\<rparr>,
       \<lparr>node_rule = ''deprioritize_by_return_or_risk'', node_outcome = Deprioritize,
         node_evidence = PDict [(''expected_return'', PFloat (Finite 0)), (''volatility'', PNone),
             (''thresholds'', PDict [(''max_volatility'', PFloat (Finite 0.15)), (''min_return'', PFloat (Finite 0.03))])],
         node_note = Some ''Fails return / volatility requirements'', node_confidence = 0.6\<rparr>],
      Some Deprioritize, 0.7)"
  by (simp add: RULES_def scenario_B_rules no_outcome_def apply_node_def make_node_def
        initial_state_def verdict_def Let_def)

lemmas string_defs = py_lower_def py_strip_def lower_char_def py_isspace_def

lemma map_raise_strings:
  "map_raise method_strip_lower (map PStr es) = Inr (map (\<lambda>e. py_lower (py_strip e)) es)"
  by (induction es) simp_all

lemma exclude_industry_on_strings:
  assumes "dict_get investor ''excluded_industries'' = PList (map PStr es)" and "es \<noteq> []"
    and "py_or (dict_get_default asset ''sector'' (PStr [])) (PStr []) = PStr s"
  shows "rule_exclude_industry investor asset =
     (if py_lower s \<in> set (map (\<lambda>e. py_lower (py_strip e)) es)
      then Inr \<lparr>res_outcome = Some Reject, res_rule = Some ''exclude_by_industry'',
                res_evidence = PDict [(''sector'', PStr s), (''excluded'', PList (map PStr es))],
                res_confidence = Some 0.95,
                res_note = Some (''Asset sector '' @ [CHR 0x27] @ s @ [CHR 0x27]
                                  @ '' matches investor excluded industries'')\<rparr>
      else Inr no_outcome)"
  using assms(2,3)
  by (simp add: rule_exclude_industry_def assms(1) py_or_def [of "PList (map PStr es)"]
        map_raise_strings Let_def)

lemma run_rules_first_rejects:
  assumes "rule_fn r investor asset = Inr res" and "res_outcome res = Some Reject"
  shows "verdict (run_rules (r # rs) investor asset symbol initial_state) =
     ([make_node r res Reject], Some Reject, max 0 (node_confidence (make_node r res Reject)))"
  using assms
  by (simp add: apply_node_def Let_def verdict_def initial_state_def make_node_def
        split: option.splits)

lemma exclude_industry_match_rejects:
  assumes "dict_get investor ''excluded_industries'' = PList (map PStr es)" and "es \<noteq> []"
    and "py_or (dict_get_default asset ''sector'' (PStr [])) (PStr []) = PStr s"
    and "py_lower s \<in> set (map (\<lambda>e. py_lower (py_strip e)) es)"
  shows "d_decision (fst (evaluate_asset P w investor asset rp)) = Reject
    \<and> d_confidence (fst (evaluate_asset P w investor asset rp)) = 0.95
    \<and> map node_rule (d_reason_tree (fst (evaluate_asset P w investor asset rp))) = [''exclude_by_industry'']"
proof -
  let ?res = "\<lparr>res_outcome = Some Reject, res_rule = Some ''exclude_by_industry'',
                res_evidence = PDict [(''sector'', PStr s), (''excluded'', PList (map PStr es))],
                res_confidence = Some 0.95,
                res_note = Some (''Asset sector '' @ [CHR 0x27] @ s @ [CHR 0x27]
                                  @ '' matches investor excluded industries'')\<rparr>"
  let ?r = "\<lparr>rule_name = ''_rule_exclude_industry'', rule_fn = rule_exclude_industry\<rparr>"
  have r: "rule_fn ?r investor asset = Inr ?res"
    using exclude_industry_on_strings [OF assms(1,2,3)] assms(4) by simp
  have "verdict (run_rules (RULES P) investor asset (asset_symbol asset) initial_state) =
     ([make_node ?r ?res Reject], Some Reject, max 0 (node_confidence (make_node ?r ?res Reject)))"
    unfolding RULES_def by (rule run_rules_first_rejects [OF r]) simp
  then show ?thesis
    by (simp add: evaluate_asset_def evaluate_with_decision evaluate_with_confidence
          evaluate_with_reason_tree verdict_def make_node_def)
qed


lemma map_of_dict_del: "map_of (dict_del d k) k' = (if k' = k then None else map_of d k')"
  by (induction d) (auto simp: dict_del_def)

lemma dict_get_dict_del:
  "dict_get (dict_del d k) k' = (if k' = k then PNone else dict_get d k')"
  by (simp add: dict_get_def map_of_dict_del)

lemma py_or_falsy: "\<not> truthy a \<Longrightarrow> py_or a b = py_or PNone b"
  by (simp add: py_or_def)

lemma carbon_falsy_absent:
  assumes "\<not> truthy (dict_get asset ''carbon_emissions'')"
  shows "rule_exclude_by_carbon P investor asset =
         rule_exclude_by_carbon P investor (dict_del asset ''carbon_emissions'')"
  by (simp add: rule_exclude_by_carbon_def dict_get_dict_del py_or_falsy [OF assms])

lemma volatility_falsy_absent:
  assumes "\<not> truthy (dict_get asset ''volatility'')"
  shows "rule_return_and_risk P investor asset =
         rule_return_and_risk P investor (dict_del asset ''volatility'')"
  by (simp add: rule_return_and_risk_def dict_get_dict_del py_or_falsy [OF assms]
        cong: sum.case_cong)

lemma beta_falsy_absent:
  assumes "\<not> truthy (dict_get asset ''beta'')"
  shows "rule_return_and_risk P investor asset =
         rule_return_and_risk P investor (dict_del asset ''beta'')"
proof -
  have "py_or (py_or v (dict_get asset ''beta'')) s = py_or (py_or v PNone) s" for v s
    using assms by (simp add: py_or_def)
  then show ?thesis
    by (simp add: rule_return_and_risk_def dict_get_dict_del cong: sum.case_cong)
qed

lemma apply_nodes_verdict:
  "verdict st = verdict st' \<Longrightarrow> verdict (apply_nodes st ns) = verdict (apply_nodes st' ns)"
proof (induction ns arbitrary: st st')
  case Nil
  then show ?case by simp
next
  case (Cons n ns)
  from apply_node_verdict [OF Cons.prems, of n]
  have "verdict (fst (apply_node st n)) = verdict (fst (apply_node st' n))" by simp
  from Cons.IH [OF this] show ?case by simp
qed

lemma apply_node_stops: "snd (apply_node st n) = (node_outcome n = Reject)"
  by (simp add: apply_node_def Let_def)

lemma apply_node_tree: "reason_tree (fst (apply_node st n)) = reason_tree st @ [n]"
  by (simp add: apply_node_def Let_def)

lemma apply_nodes_tree: "reason_tree (apply_nodes st ns) = reason_tree st @ ns"
  by (induction ns arbitrary: st) (simp_all add: apply_node_tree)

lemma apply_nodes_decided:
  "ns \<noteq> [] \<Longrightarrow> final_decision (apply_nodes st ns) \<noteq> None"
proof (induction ns arbitrary: st)
  case Nil
  then show ?case by simp
next
  case (Cons n ns)
  show ?case
  proof (cases "ns = []")
    case True
    then show ?thesis using apply_node_decided [of st n] by simp
  next
    case False
    from Cons.IH [OF this] show ?thesis by simp
  qed
qed

lemma run_rules_emitted:
  "verdict (run_rules rs investor asset symbol st)
     = verdict (apply_nodes st (until_reject (emitted rs investor asset)))"
proof (induction rs arbitrary: st)
  case Nil
  then show ?case by simp
next
  case (Cons r rs)
  show ?case
  proof (cases "rule_fn r investor asset")
    case (Inl e)
    have "verdict (st\<lparr>events := events st @ [RuleException (rule_name r) symbol e]\<rparr>) = verdict st"
      by (simp add: verdict_def)
    from run_rules_verdict [OF this, of rs investor asset symbol symbol] Cons.IH [of st] Inl
    show ?thesis by simp
  next
    case (Inr res)
    show ?thesis
    proof (cases "res_outcome res")
      case None
      with Inr Cons.IH [of st] show ?thesis by simp
    next
      case (Some oc)
      let ?n = "make_node r res oc"
      show ?thesis
      proof (cases "node_outcome ?n = Reject")
        case True
        with Inr Some apply_node_stops [of st ?n] show ?thesis
          by (simp add: split_beta)
      next
        case False
        with Inr Some apply_node_stops [of st ?n] Cons.IH [of "fst (apply_node st ?n)"]
        show ?thesis by (simp add: split_beta)
      qed
    qed
  qed
qed

lemma emitted_append:
  "emitted (xs @ ys) investor asset = emitted xs investor asset @ emitted ys investor asset"
  by (induction xs) (simp_all split: sum.splits option.splits)

lemma emitted_skip_faulting:
  "rule_fn r investor asset = Inl e \<Longrightarrow>
     emitted (pre @ r # post) investor asset = emitted pre investor asset @ emitted post investor asset"
  by (simp add: emitted_append)

lemma until_reject_no_reject:
  "Reject \<notin> node_outcome ` set ns \<Longrightarrow> until_reject ns = ns"
  by (induction ns) auto

lemma until_reject_empty: "(until_reject ns = []) = (ns = [])"
  by (cases ns) simp_all

lemma evaluate_with_emitted:
  "d_reason_tree (fst (evaluate_with P rules w investor asset rp))
     = (if emitted rules investor asset = [] then [default_node]
        else until_reject (emitted rules investor asset))"
  "d_decision (fst (evaluate_with P rules w investor asset rp))
     = (case final_decision (apply_nodes initial_state (until_reject (emitted rules investor asset)))
        of None \<Rightarrow> Deprioritize | Some oc \<Rightarrow> oc)"
  "d_confidence (fst (evaluate_with P rules w investor asset rp))
     = (if emitted rules investor asset = [] then 0.2
        else final_confidence (apply_nodes initial_state (until_reject (emitted rules investor asset))))"
proof -
  let ?ns = "until_reject (emitted rules investor asset)"
  let ?st = "run_rules rules investor asset (asset_symbol asset) initial_state"
  from run_rules_emitted [of rules investor asset "asset_symbol asset" initial_state]
  have t: "reason_tree ?st = ?ns"
    and d: "final_decision ?st = final_decision (apply_nodes initial_state ?ns)"
    and c: "final_confidence ?st = final_confidence (apply_nodes initial_state ?ns)"
    by (simp_all add: verdict_def apply_nodes_tree initial_state_def)
  have e: "(final_decision (apply_nodes initial_state ?ns) = None) = (emitted rules investor asset = [])"
  proof (cases "emitted rules investor asset = []")
    case True
    then show ?thesis by (simp add: initial_state_def)
  next
    case False
    then have "?ns \<noteq> []" by (simp add: until_reject_empty)
    from apply_nodes_decided [OF this] False show ?thesis by simp
  qed
  show "d_reason_tree (fst (evaluate_with P rules w investor asset rp))
     = (if emitted rules investor asset = [] then [default_node] else ?ns)"
    using e by (auto simp: evaluate_with_reason_tree t d split: option.splits)
  show "d_decision (fst (evaluate_with P rules w investor asset rp))
     = (case final_decision (apply_nodes initial_state ?ns) of None \<Rightarrow> Deprioritize | Some oc \<Rightarrow> oc)"
    by (simp add: evaluate_with_decision d)
  show "d_confidence (fst (evaluate_with P rules w investor asset rp))
     = (if emitted rules investor asset = [] then 0.2
        else final_confidence (apply_nodes initial_state ?ns))"
    using e by (auto simp: evaluate_with_confidence d c split: option.splits)
qed

lemma carbon_zero_rejected_on_score:
  assumes "dict_get asset ''carbon_emissions'' = PInt 0"
    and "dict_get asset ''carbon_score'' = PFloat (Finite c)"
    and "dict_get investor ''max_carbon_score'' = PFloat (Finite m)" and "m < c"
  shows "rule_exclude_by_carbon P investor asset =
     Inr \<lparr>res_outcome = Some Reject, res_rule = Some ''exclude_by_carbon'',
          res_evidence = PDict [(''carbon'', PFloat (Finite c)), (''max_allowed'', PFloat (Finite m))],
          res_confidence = Some 0.9,
          res_note = Some (''Asset carbon '' @ float_repr P c @ '' > investor max '' @ float_repr P m)\<rparr>"
  using assms by (simp add: rule_exclude_by_carbon_def py_or_def)

lemma carbon_evidence_is_score:
  assumes "\<not> truthy (dict_get asset ''carbon_emissions'')"
    and "outcome_of (rule_exclude_by_carbon P investor asset) \<noteq> None"
  shows "evidence_field (rule_exclude_by_carbon P investor asset) ''carbon''
           = Some (float_evidence P (dict_get asset ''carbon_score''))"
  using assms
  by (auto simp: rule_exclude_by_carbon_def py_or_def outcome_of_def evidence_field_def
        float_evidence_def float_or_none_def no_outcome_def Let_def
        split: sum.splits if_splits)

lemma volatility_evidence:
  assumes "outcome_of (rule_return_and_risk P investor asset) \<noteq> None"
  shows "evidence_field (rule_return_and_risk P investor asset) ''volatility''
           = Some (float_evidence P
               (py_or (py_or (dict_get asset ''volatility'') (dict_get asset ''beta''))
                      (dict_get asset ''stddev'')))"
  using assms
  by (auto simp: rule_return_and_risk_def outcome_of_def evidence_field_def
        float_evidence_def no_outcome_def Let_def
        split: sum.splits if_splits option.splits)

lemma volatility_evidence_is_beta:
  assumes "\<not> truthy (dict_get asset ''volatility'')" and "truthy (dict_get asset ''beta'')"
    and "outcome_of (rule_return_and_risk P investor asset) \<noteq> None"
  shows "evidence_field (rule_return_and_risk P investor asset) ''volatility''
           = Some (float_evidence P (dict_get asset ''beta''))"
  using volatility_evidence [OF assms(3)] assms(1,2) by (simp add: py_or_def)

lemma volatility_evidence_is_stddev:
  assumes "\<not> truthy (dict_get asset ''volatility'')" and "\<not> truthy (dict_get asset ''beta'')"
    and "outcome_of (rule_return_and_risk P investor asset) \<noteq> None"
  shows "evidence_field (rule_return_and_risk P investor asset) ''volatility''
           = Some (float_evidence P (dict_get asset ''stddev''))"
  using volatility_evidence [OF assms(3)] assms(1,2) by (simp add: py_or_def)

lemma beta_above_limit_deprioritizes:
  assumes "\<not> truthy (dict_get asset ''volatility'')"
    and "dict_get asset ''beta'' = PFloat (Finite b)" and "b \<noteq> 0"
    and "dict_get asset ''expected_return'' = PFloat (Finite er)"
    and "thresholds_for (dict_get_default investor ''risk_tolerance'' (PStr ''medium'')) = Inr t"
    and "fst t < b"
  shows "outcome_of (rule_return_and_risk P investor asset) = Some Deprioritize"
  using assms
  by (simp add: rule_return_and_risk_def outcome_of_def py_or_def float_or_none_def Let_def)

lemma beta_within_limit_accepts:
  assumes "\<not> truthy (dict_get asset ''volatility'')"
    and "dict_get asset ''beta'' = PFloat (Finite b)" and "b \<noteq> 0"
    and "dict_get asset ''expected_return'' = PFloat (Finite er)"
    and "thresholds_for (dict_get_default investor ''risk_tolerance'' (PStr ''medium'')) = Inr t"
    and "snd t \<le> er" and "b \<le> fst t"
  shows "outcome_of (rule_return_and_risk P investor asset) = Some Accept"
  using assms
  by (simp add: rule_return_and_risk_def outcome_of_def py_or_def float_or_none_def Let_def)

lemma sort_key_same_items:
  assumes "distinct (map fst d1)" and "distinct (map fst d2)" and "set d1 = set d2"
  shows "sort_key fst d1 = sort_key fst (d2 :: (string \<times> 'v) list)"
proof (rule sort_key_inj_key_eq)
  have "distinct d1" "distinct d2"
    using assms(1,2) by (simp_all add: distinct_map)
  with assms(3) have "mset d1 = mset d2"
    by (simp add: set_eq_iff_mset_eq_distinct)
  then show "mset d1 = mset (sort_key fst d2)" by simp
  show "inj_on fst (set d1)"
    using assms(1) by (simp add: distinct_map)
  show "sorted (map fst (sort_key fst d2))" by simp
qed

lemma json_encode_same_items:
  assumes "distinct (map fst d1)" and "distinct (map fst d2)" and "set d1 = set d2"
  shows "json_encode P ind lvl (PDict d1) = json_encode P ind lvl (PDict d2)"
proof -
  have "(d1 = []) = (d2 = [])"
    using assms(3) by (metis set_empty)
  then show ?thesis
    using sort_key_same_items [OF assms] by simp
qed

lemma insort_key_map:
  "insort_key f (h x) (map h xs) = map h (insort_key (\<lambda>y. f (h y)) x xs)"
  by (induction xs) simp_all

lemma sort_key_map:
  "sort_key f (map h xs) = map h (sort_key (\<lambda>y. f (h y)) xs)"
  by (induction xs) (simp_all add: insort_key_map)

lemma json_encode_sorted_keys:
  "json_encode P ind lvl (sorted_keys v) = json_encode P ind lvl v"
proof (induction P ind lvl v rule: json_encode.induct)
  case (7 P ind lvl xs)
  then have m: "map (json_encode P ind (Suc lvl)) (map sorted_keys xs)
           = map (json_encode P ind (Suc lvl)) xs"
    by (cases "xs = []") simp_all
  show ?case
    unfolding sorted_keys.simps json_encode.simps m by simp
next
  case (8 P ind lvl d)
  let ?h = "\<lambda>kv. (fst kv, sorted_keys (snd kv))"
  let ?g = "\<lambda>kv. json_string (fst kv) @ '': '' @ json_encode P ind (Suc lvl) (snd kv)"
  have s: "sort_key fst (map ?h d) = map ?h (sort_key fst d)"
    by (simp add: sort_key_map)
  have i: "sort_key fst (sort_key fst (map ?h d)) = sort_key fst (map ?h d)"
    by (simp add: sort_key_id_if_sorted)
  have m: "map ?g (map ?h (sort_key fst d)) = map ?g (sort_key fst d)"
    using 8 by (cases "d = []") simp_all
  have e: "(sort_key fst d = []) = (d = [])"
    by (metis length_sort length_0_conv)
  show ?case
    unfolding sorted_keys.simps json_encode.simps i unfolding s m by (simp add: e)
qed simp_all

lemma sorted_keys_same_items:
  assumes "distinct (map fst d1)" and "distinct (map fst d2)" and "set d1 = set d2"
  shows "sorted_keys (PDict d1) = sorted_keys (PDict d2)"
proof -
  have "sort_key fst (map (\<lambda>kv. (fst kv, sorted_keys (snd kv))) d1)
      = map (\<lambda>kv. (fst kv, sorted_keys (snd kv))) (sort_key fst d1)"
       "sort_key fst (map (\<lambda>kv. (fst kv, sorted_keys (snd kv))) d2)
      = map (\<lambda>kv. (fst kv, sorted_keys (snd kv))) (sort_key fst d2)"
    by (simp_all add: sort_key_map)
  with sort_key_same_items [OF assms] show ?thesis by simp
qed

lemma sha256_of_obj_sorted_keys:
  "sorted_keys v1 = sorted_keys v2 \<Longrightarrow> sha256_of_obj P v1 = sha256_of_obj P v2"
  by (metis sha256_of_obj_def json_encode_sorted_keys)












section \<open>The claims\<close>

text \<open>
  C3. The score of every decision that \<open>evaluate_asset\<close> returns is the weight of its
  decision (accept 1.0, deprioritize 0.5, reject 0.0) multiplied by its confidence, whatever
  the investor, the asset, the rule list and the world are: it is a function of these two
  fields only.
\<close>

theorem score_is_weight_times_confidence:
  "d_score (fst (evaluate_asset P w investor asset rp))
     = decision_weight (d_decision (fst (evaluate_asset P w investor asset rp)))
         * d_confidence (fst (evaluate_asset P w investor asset rp))
   \<and> d_score (fst (evaluate_with P rules w investor asset rp))
     = decision_weight (d_decision (fst (evaluate_with P rules w investor asset rp)))
         * d_confidence (fst (evaluate_with P rules w investor asset rp))
   \<and> decision_weight Accept = 1 \<and> decision_weight Deprioritize = 0.5 \<and> decision_weight Reject = 0"
  by (simp add: evaluate_asset_def evaluate_with_score decision_weight_def)

text \<open>
  C4. When none of the four rules produces an outcome on an input (each one abstains: it
  returns no outcome, or it raises and is skipped), \<open>evaluate_asset\<close> returns
  deprioritize with confidence 0.2 and score 0.1, and the reason tree is the single
  synthetic node \<open>default_deprioritize\<close>.
\<close>

theorem default_when_no_rule_fires:
  assumes "abstains (rule_exclude_industry investor asset)"
    and "abstains (rule_exclude_by_carbon P investor asset)"
    and "abstains (rule_recent_large_drop P investor asset)"
    and "abstains (rule_return_and_risk P investor asset)"
  shows "d_decision (fst (evaluate_asset P w investor asset rp)) = Deprioritize
    \<and> d_confidence (fst (evaluate_asset P w investor asset rp)) = 0.2
    \<and> d_score (fst (evaluate_asset P w investor asset rp)) = 0.1
    \<and> d_reason_tree (fst (evaluate_asset P w investor asset rp)) = [default_node]
    \<and> node_rule default_node = ''default_deprioritize''
    \<and> node_outcome default_node = Deprioritize
    \<and> node_confidence default_node = 0.2"
proof -
  have "\<forall>r \<in> set (RULES P). (case rule_fn r investor asset of Inl e \<Rightarrow> True | Inr res \<Rightarrow> res_outcome res = None)"
    using assms by (simp add: RULES_def abstains_def)
  from run_rules_no_outcome [OF this, of "asset_symbol asset" initial_state]
  have "reason_tree (run_rules (RULES P) investor asset (asset_symbol asset) initial_state) = []"
    and "final_decision (run_rules (RULES P) investor asset (asset_symbol asset) initial_state) = None"
    by (simp_all add: verdict_def initial_state_def)
  then show ?thesis
    by (simp add: evaluate_asset_def evaluate_with_score evaluate_with_decision
          evaluate_with_confidence evaluate_with_reason_tree decision_weight_def default_node_def)
qed

theorem default_when_no_rule_fires_witness:
  "abstains (rule_exclude_industry [] [(''symbol'', PStr ''XYZ'')])
   \<and> abstains (rule_exclude_by_carbon example_platform [] [(''symbol'', PStr ''XYZ'')])
   \<and> abstains (rule_recent_large_drop example_platform [] [(''symbol'', PStr ''XYZ'')])
   \<and> abstains (rule_return_and_risk example_platform [] [(''symbol'', PStr ''XYZ'')])
   \<and> d_decision (fst (evaluate_asset example_platform example_world [] [(''symbol'', PStr ''XYZ'')] True)) = Deprioritize
   \<and> d_confidence (fst (evaluate_asset example_platform example_world [] [(''symbol'', PStr ''XYZ'')] True)) = 0.2
   \<and> d_score (fst (evaluate_asset example_platform example_world [] [(''symbol'', PStr ''XYZ'')] True)) = 0.1
   \<and> d_reason_tree (fst (evaluate_asset example_platform example_world [] [(''symbol'', PStr ''XYZ'')] True)) = [default_node]"
proof -
  have a: "abstains (rule_exclude_industry [] [(''symbol'', PStr ''XYZ'')])"
    by (simp add: abstains_def rule_exclude_industry_def field_defs no_outcome_def)
  have b: "abstains (rule_exclude_by_carbon example_platform [] [(''symbol'', PStr ''XYZ'')])"
    by (simp add: abstains_def rule_exclude_by_carbon_def field_defs no_outcome_def)
  have c: "abstains (rule_recent_large_drop example_platform [] [(''symbol'', PStr ''XYZ'')])"
    by (simp add: abstains_def rule_recent_large_drop_def field_defs no_outcome_def)
  have d: "abstains (rule_return_and_risk example_platform [] [(''symbol'', PStr ''XYZ'')])"
    by (simp add: abstains_def rule_return_and_risk_def field_defs no_outcome_def
          thresholds_for_def RISK_THRESHOLDS_def float_or_none_def)
  show ?thesis
    using a b c d default_when_no_rule_fires [OF a b c d, of example_world True] by simp
qed

text \<open>
  C6. Scenario B: for the investor \<open>{risk_tolerance: "low"}\<close> and the asset
  \<open>{symbol: "ABC", percent_change: -8}\<close> the decision is deprioritize with confidence
  0.7, the larger of the recent-large-drop node's 0.7 and the return-and-risk node's 0.6,
  and score 0.35; the return-and-risk node records the derived expected return 0.
\<close>

theorem scenario_B_deprioritize:
  "d_decision (fst (evaluate_asset P w scenario_B_investor scenario_B_asset rp)) = Deprioritize
   \<and> d_confidence (fst (evaluate_asset P w scenario_B_investor scenario_B_asset rp)) = 0.7
   \<and> d_score (fst (evaluate_asset P w scenario_B_investor scenario_B_asset rp)) = 0.35
   \<and> map node_rule (d_reason_tree (fst (evaluate_asset P w scenario_B_investor scenario_B_asset rp)))
        = [''recent_large_drop'', ''deprioritize_by_return_or_risk'']
   \<and> map node_outcome (d_reason_tree (fst (evaluate_asset P w scenario_B_investor scenario_B_asset rp)))
        = [Deprioritize, Deprioritize]
   \<and> map node_confidence (d_reason_tree (fst (evaluate_asset P w scenario_B_investor scenario_B_asset rp)))
        = [0.7, 0.6]
   \<and> map_of (case node_evidence (last (d_reason_tree
          (fst (evaluate_asset P w scenario_B_investor scenario_B_asset rp)))) of PDict d \<Rightarrow> d | _ \<Rightarrow> [])
        ''expected_return'' = Some (PFloat (Finite 0))"
proof -
  have v: "verdict (run_rules (RULES P) scenario_B_investor scenario_B_asset
             (asset_symbol scenario_B_asset) initial_state) = 
     ([\<lparr>node_rule = ''recent_large_drop'', node_outcome = Deprioritize,
         node_evidence = PDict [(''percent_change'', PInt (- 8))],
         node_note = Some ''Asset dropped more than 5% recently'', node_confidence = 0.7\<rparr>,
       \<lparr>node_rule = ''deprioritize_by_return_or_risk'', node_outcome = Deprioritize,
         node_evidence = PDict [(''expected_return'', PFloat (Finite 0)), (''volatility'', PNone),
             (''thresholds'', PDict [(''max_volatility'', PFloat (Finite 0.15)), (''min_return'', PFloat (Finite 0.03))])],
         node_note = Some ''Fails return / volatility requirements'', node_confidence = 0.6\<rparr>],
      Some Deprioritize, 0.7)"
    by (rule scenario_B_run)
  show ?thesis
    using v
    by (simp add: evaluate_asset_def evaluate_with_score evaluate_with_decision
          evaluate_with_confidence evaluate_with_reason_tree verdict_def decision_weight_def)
qed

text \<open>
  C1. The claim: whenever the sector of the asset matches an excluded entry without regard
  to case, the decision is reject with confidence 0.95 and a single node. The rule strips
  and lower-cases the excluded entries but only lower-cases the sector, so a sector that is
  literally in the excluded list is not matched when both carry a space at the end: for
  the investor \<open>{risk_tolerance: "medium", excluded_industries: ["Tobacco "]}\<close> and the
  asset \<open>{symbol: "XYZ", sector: "Tobacco ", percent_change: 2}\<close> the decision is
  deprioritize with confidence 0.6, from the return-and-risk rule alone.
\<close>

theorem padded_sector_is_not_rejected:
  "d_decision (fst (evaluate_asset P w padded_investor padded_asset rp)) = Deprioritize
   \<and> d_confidence (fst (evaluate_asset P w padded_investor padded_asset rp)) = 0.6
   \<and> map node_rule (d_reason_tree (fst (evaluate_asset P w padded_investor padded_asset rp)))
        = [''deprioritize_by_return_or_risk'']
   \<and> dict_get padded_asset ''sector'' = PStr ''Tobacco ''
   \<and> dict_get padded_investor ''excluded_industries'' = PList [PStr ''Tobacco '']"
proof -
  have r1: "rule_exclude_industry padded_investor padded_asset = Inr no_outcome"
    by (simp add: rule_exclude_industry_def field_defs string_defs padded_investor_def padded_asset_def)
  have r2: "rule_exclude_by_carbon P padded_investor padded_asset = Inr no_outcome"
    by (simp add: rule_exclude_by_carbon_def field_defs padded_investor_def padded_asset_def)
  have r3: "rule_recent_large_drop P padded_investor padded_asset = Inr no_outcome"
    by (simp add: rule_recent_large_drop_def field_defs padded_investor_def padded_asset_def)
  have r4: "rule_return_and_risk P padded_investor padded_asset =
     Inr \<lparr>res_outcome = Some Deprioritize, res_rule = Some ''deprioritize_by_return_or_risk'',
          res_evidence = PDict [(''expected_return'', PFloat (Finite 0.02)), (''volatility'', PNone),
             (''thresholds'', PDict [(''max_volatility'', PFloat (Finite 0.30)), (''min_return'', PFloat (Finite 0.06))])],
          res_confidence = Some 0.6,
          res_note = Some ''Fails return / volatility requirements''\<rparr>"
    by (simp add: rule_return_and_risk_def field_defs thresholds_for_def RISK_THRESHOLDS_def
          float_or_none_def thresholds_dict_def py_max_def padded_investor_def padded_asset_def)
  have "verdict (run_rules (RULES P) padded_investor padded_asset (asset_symbol padded_asset) initial_state)
      = ([\<lparr>node_rule = ''deprioritize_by_return_or_risk'', node_outcome = Deprioritize,
          node_evidence = PDict [(''expected_return'', PFloat (Finite 0.02)), (''volatility'', PNone),
             (''thresholds'', PDict [(''max_volatility'', PFloat (Finite 0.30)), (''min_return'', PFloat (Finite 0.06))])],
          node_note = Some ''Fails return / volatility requirements'', node_confidence = 0.6\<rparr>],
         Some Deprioritize, 0.6)"
    by (simp add: RULES_def r1 r2 r3 r4 no_outcome_def apply_node_def make_node_def
          initial_state_def verdict_def Let_def)
  then have "d_decision (fst (evaluate_asset P w padded_investor padded_asset rp)) = Deprioritize
   \<and> d_confidence (fst (evaluate_asset P w padded_investor padded_asset rp)) = 0.6
   \<and> map node_rule (d_reason_tree (fst (evaluate_asset P w padded_investor padded_asset rp)))
        = [''deprioritize_by_return_or_risk'']"
    by (simp add: evaluate_asset_def evaluate_with_decision evaluate_with_confidence
          evaluate_with_reason_tree verdict_def)
  moreover have "dict_get padded_asset ''sector'' = PStr ''Tobacco ''
     \<and> dict_get padded_investor ''excluded_industries'' = PList [PStr ''Tobacco '']"
    by (simp add: padded_investor_def padded_asset_def dict_get_def)
  ultimately show ?thesis by simp
qed

text \<open>
  C7. The claim: with the sector absent the exclude-by-industry rule gives no outcome,
  whatever the excluded entries are. An absent sector is read as the empty string and an
  entry of spaces is stripped to the empty string, so they match: for the investor
  \<open>{excluded_industries: [" "]}\<close> and the asset \<open>{symbol: "XYZ"}\<close> the rule
  rejects, and so does the evaluation.
\<close>

theorem absent_sector_matches_blank_entry:
  "map_of no_sector_asset ''sector'' = None
   \<and> rule_exclude_industry blank_entry_investor no_sector_asset =
       Inr \<lparr>res_outcome = Some Reject, res_rule = Some ''exclude_by_industry'',
            res_evidence = PDict [(''sector'', PStr []), (''excluded'', PList [PStr '' ''])],
            res_confidence = Some 0.95,
            res_note = Some (''Asset sector '' @ [CHR 0x27, CHR 0x27]
                              @ '' matches investor excluded industries'')\<rparr>
   \<and> d_decision (fst (evaluate_asset P w blank_entry_investor no_sector_asset rp)) = Reject"
proof -
  have a: "dict_get blank_entry_investor ''excluded_industries'' = PList (map PStr ['' ''])"
    by (simp add: blank_entry_investor_def dict_get_def)
  have b: "py_or (dict_get_default no_sector_asset ''sector'' (PStr [])) (PStr []) = PStr []"
    by (simp add: no_sector_asset_def field_defs)
  have c: "py_lower [] \<in> set (map (\<lambda>e. py_lower (py_strip e)) ['' ''])"
    by (simp add: string_defs)
  have n: "['' ''] \<noteq> ([] :: string list)" by simp
  from exclude_industry_on_strings [OF a n b] c
  have "rule_exclude_industry blank_entry_investor no_sector_asset =
       Inr \<lparr>res_outcome = Some Reject, res_rule = Some ''exclude_by_industry'',
            res_evidence = PDict [(''sector'', PStr []), (''excluded'', PList [PStr '' ''])],
            res_confidence = Some 0.95,
            res_note = Some (''Asset sector '' @ [CHR 0x27, CHR 0x27]
                              @ '' matches investor excluded industries'')\<rparr>"
    by simp
  moreover have "d_decision (fst (evaluate_asset P w blank_entry_investor no_sector_asset rp)) = Reject"
    using exclude_industry_match_rejects [OF a n b c] by simp
  moreover have "map_of no_sector_asset ''sector'' = None"
    by (simp add: no_sector_asset_def)
  ultimately show ?thesis by simp
qed

text \<open>
  C5. When a rule function of the list raises, the evaluation still returns a decision,
  the faulting rule contributes no node, and the rules after it are evaluated: the reason
  tree consists of the nodes of all rules before and after the faulting one that give an
  outcome, in order, up to the first reject (or of the default node when there is none);
  the decision and the confidence are those of the aggregation over exactly these nodes,
  and the score is the weight of the decision times the confidence. So the decision is the
  one returned for the list without the faulting rule. When no rule before the faulting one
  rejects, every node of the rules after it, up to their first reject, is in the tree.
\<close>

theorem faulting_rule_is_skipped:
  assumes "rule_fn r investor asset = Inl e"
  shows "fst (evaluate_with P (pre @ r # post) w investor asset rp)
           = fst (evaluate_with P (pre @ post) w investor asset rp)
    \<and> emitted (pre @ r # post) investor asset
        = emitted pre investor asset @ emitted post investor asset
    \<and> d_reason_tree (fst (evaluate_with P (pre @ r # post) w investor asset rp))
        = (if emitted pre investor asset @ emitted post investor asset = [] then [default_node]
           else until_reject (emitted pre investor asset @ emitted post investor asset))
    \<and> d_decision (fst (evaluate_with P (pre @ r # post) w investor asset rp))
        = (case final_decision (apply_nodes initial_state
              (until_reject (emitted pre investor asset @ emitted post investor asset)))
           of None \<Rightarrow> Deprioritize | Some oc \<Rightarrow> oc)
    \<and> d_confidence (fst (evaluate_with P (pre @ r # post) w investor asset rp))
        = (if emitted pre investor asset @ emitted post investor asset = [] then 0.2
           else final_confidence (apply_nodes initial_state
              (until_reject (emitted pre investor asset @ emitted post investor asset))))
    \<and> d_score (fst (evaluate_with P (pre @ r # post) w investor asset rp))
        = decision_weight (d_decision (fst (evaluate_with P (pre @ r # post) w investor asset rp)))
            * d_confidence (fst (evaluate_with P (pre @ r # post) w investor asset rp))
    \<and> (Reject \<notin> node_outcome ` set (emitted pre investor asset) \<longrightarrow>
          set (until_reject (emitted post investor asset))
            \<subseteq> set (d_reason_tree (fst (evaluate_with P (pre @ r # post) w investor asset rp))))"
proof -
  from run_rules_skip_faulting [OF assms, of pre post "asset_symbol asset" initial_state]
  have v: "reason_tree (run_rules (pre @ r # post) investor asset (asset_symbol asset) initial_state)
            = reason_tree (run_rules (pre @ post) investor asset (asset_symbol asset) initial_state)"
     "final_decision (run_rules (pre @ r # post) investor asset (asset_symbol asset) initial_state)
            = final_decision (run_rules (pre @ post) investor asset (asset_symbol asset) initial_state)"
     "final_confidence (run_rules (pre @ r # post) investor asset (asset_symbol asset) initial_state)
            = final_confidence (run_rules (pre @ post) investor asset (asset_symbol asset) initial_state)"
    by (simp_all add: verdict_def)
  have eq: "fst (evaluate_with P (pre @ r # post) w investor asset rp)
           = fst (evaluate_with P (pre @ post) w investor asset rp)"
    by (rule decision_eqI)
       (simp_all only: evaluate_with_asset evaluate_with_decision evaluate_with_score
          evaluate_with_confidence evaluate_with_reason_tree evaluate_with_provenance
          evaluate_with_timestamp v)
  have em: "emitted (pre @ r # post) investor asset
        = emitted pre investor asset @ emitted post investor asset"
    by (rule emitted_skip_faulting [OF assms])
  note ch = evaluate_with_emitted [of P "pre @ r # post" w investor asset rp, unfolded em]
  have sub: "Reject \<notin> node_outcome ` set (emitted pre investor asset) \<longrightarrow>
       set (until_reject (emitted post investor asset))
       \<subseteq> set (d_reason_tree (fst (evaluate_with P (pre @ r # post) w investor asset rp)))"
  proof
    assume a: "Reject \<notin> node_outcome ` set (emitted pre investor asset)"
    have "until_reject (xs @ ys) = xs @ until_reject ys" if "Reject \<notin> node_outcome ` set xs"
      for xs ys :: "node list"
      using that by (induction xs) auto
    from this [OF a]
    have u: "until_reject (emitted pre investor asset @ emitted post investor asset)
        = emitted pre investor asset @ until_reject (emitted post investor asset)" .
    show "set (until_reject (emitted post investor asset))
       \<subseteq> set (d_reason_tree (fst (evaluate_with P (pre @ r # post) w investor asset rp)))"
      unfolding ch(1) u by (auto simp: until_reject_empty)
  qed
  have sc: "d_score (fst (evaluate_with P (pre @ r # post) w investor asset rp))
        = decision_weight (d_decision (fst (evaluate_with P (pre @ r # post) w investor asset rp)))
            * d_confidence (fst (evaluate_with P (pre @ r # post) w investor asset rp))"
    by (rule evaluate_with_score)
  from eq em ch(1) ch(2) ch(3) sc sub show ?thesis
    by (intro conjI)
qed

theorem faulting_rule_is_skipped_witness:
  "rule_fn \<lparr>rule_name = ''_rule_exclude_by_carbon'', rule_fn = rule_exclude_by_carbon example_platform\<rparr>
      faulty_investor faulty_asset = Inl ValueError
   \<and> Reject \<notin> node_outcome ` set (emitted
         [\<lparr>rule_name = ''_rule_exclude_industry'', rule_fn = rule_exclude_industry\<rparr>]
         faulty_investor faulty_asset)
   \<and> map node_rule (emitted
         [\<lparr>rule_name = ''_rule_recent_large_drop'', rule_fn = rule_recent_large_drop example_platform\<rparr>,
          \<lparr>rule_name = ''_rule_return_and_risk'', rule_fn = rule_return_and_risk example_platform\<rparr>]
         faulty_investor faulty_asset) = [''recent_large_drop'', ''deprioritize_by_return_or_risk'']
   \<and> fst (evaluate_asset example_platform example_world faulty_investor faulty_asset True)
       = fst (evaluate_with example_platform
           [\<lparr>rule_name = ''_rule_exclude_industry'', rule_fn = rule_exclude_industry\<rparr>,
            \<lparr>rule_name = ''_rule_recent_large_drop'', rule_fn = rule_recent_large_drop example_platform\<rparr>,
            \<lparr>rule_name = ''_rule_return_and_risk'', rule_fn = rule_return_and_risk example_platform\<rparr>]
           example_world faulty_investor faulty_asset True)
   \<and> map node_rule (d_reason_tree
         (fst (evaluate_asset example_platform example_world faulty_investor faulty_asset True)))
       = [''recent_large_drop'', ''deprioritize_by_return_or_risk'']
   \<and> d_decision (fst (evaluate_asset example_platform example_world faulty_investor faulty_asset True))
       = Deprioritize
   \<and> d_confidence (fst (evaluate_asset example_platform example_world faulty_investor faulty_asset True))
       = 0.7
   \<and> d_score (fst (evaluate_asset example_platform example_world faulty_investor faulty_asset True))
       = 0.35"
proof -
  let ?r1 = "\<lparr>rule_name = ''_rule_exclude_industry'', rule_fn = rule_exclude_industry\<rparr>"
  let ?r2 = "\<lparr>rule_name = ''_rule_exclude_by_carbon'', rule_fn = rule_exclude_by_carbon example_platform\<rparr>"
  let ?r3 = "\<lparr>rule_name = ''_rule_recent_large_drop'', rule_fn = rule_recent_large_drop example_platform\<rparr>"
  let ?r4 = "\<lparr>rule_name = ''_rule_return_and_risk'', rule_fn = rule_return_and_risk example_platform\<rparr>"
  let ?n3 = "\<lparr>node_rule = ''recent_large_drop'', node_outcome = Deprioritize,
         node_evidence = PDict [(''percent_change'', PInt (- 8))],
         node_note = Some ''Asset dropped more than 5% recently'', node_confidence = 0.7\<rparr>"
  let ?n4 = "\<lparr>node_rule = ''deprioritize_by_return_or_risk'', node_outcome = Deprioritize,
         node_evidence = PDict [(''expected_return'', PFloat (Finite 0)), (''volatility'', PNone),
             (''thresholds'', PDict [(''max_volatility'', PFloat (Finite 0.30)),
                (''min_return'', PFloat (Finite 0.06))])],
         node_note = Some ''Fails return / volatility requirements'', node_confidence = 0.6\<rparr>"
  have f: "rule_fn ?r2 faulty_investor faulty_asset = Inl ValueError"
    by (simp add: rule_exclude_by_carbon_def field_defs faulty_investor_def faulty_asset_def
          example_platform_def)
  have e1: "emitted [?r1] faulty_investor faulty_asset = []"
    by (simp add: rule_exclude_industry_def field_defs faulty_investor_def faulty_asset_def
          no_outcome_def)
  have e3: "emitted [?r3, ?r4] faulty_investor faulty_asset = [?n3, ?n4]"
    by (simp add: rule_recent_large_drop_def rule_return_and_risk_def field_defs thresholds_for_def
          RISK_THRESHOLDS_def float_or_none_def thresholds_dict_def py_max_def make_node_def
          faulty_investor_def faulty_asset_def)
  have a: "apply_nodes initial_state [?n3, ?n4]
     = \<lparr>reason_tree = [?n3, ?n4], final_decision = Some Deprioritize, final_confidence = 0.7,
        events = []\<rparr>"
    by (simp add: apply_node_def initial_state_def Let_def)
  have rr: "[?r1] @ ?r2 # [?r3, ?r4] = RULES example_platform"
    by (simp add: RULES_def)
  have rs: "[?r1] @ [?r3, ?r4] = [?r1, ?r3, ?r4]"
    by simp
  note t = faulting_rule_is_skipped [OF f, of example_platform "[?r1]" "[?r3, ?r4]" example_world True,
      unfolded rr rs evaluate_asset_def [symmetric] e1 e3]
  have u: "until_reject ([] @ [?n3, ?n4]) = [?n3, ?n4]"
    by simp
  have eq: "fst (evaluate_asset example_platform example_world faulty_investor faulty_asset True)
       = fst (evaluate_with example_platform [?r1, ?r3, ?r4]
           example_world faulty_investor faulty_asset True)"
    using t by blast
  have "d_reason_tree (fst (evaluate_asset example_platform example_world faulty_investor
                 faulty_asset True)) = (if [] @ [?n3, ?n4] = [] then [default_node]
           else until_reject ([] @ [?n3, ?n4]))"
    using t by blast
  then have tree: "d_reason_tree (fst (evaluate_asset example_platform example_world faulty_investor
                 faulty_asset True)) = [?n3, ?n4]"
    by simp
  have "d_decision (fst (evaluate_asset example_platform example_world faulty_investor
                 faulty_asset True)) = (case final_decision (apply_nodes initial_state
              (until_reject ([] @ [?n3, ?n4]))) of None \<Rightarrow> Deprioritize | Some oc \<Rightarrow> oc)"
    using t by blast
  then have dec: "d_decision (fst (evaluate_asset example_platform example_world faulty_investor
                 faulty_asset True)) = Deprioritize"
    unfolding u a by simp
  have "d_confidence (fst (evaluate_asset example_platform example_world faulty_investor
                 faulty_asset True)) = (if [] @ [?n3, ?n4] = [] then 0.2
           else final_confidence (apply_nodes initial_state (until_reject ([] @ [?n3, ?n4]))))"
    using t by blast
  then have conf: "d_confidence (fst (evaluate_asset example_platform example_world faulty_investor
                 faulty_asset True)) = 0.7"
    unfolding u a by simp
  have "d_score (fst (evaluate_asset example_platform example_world faulty_investor faulty_asset True))
        = decision_weight (d_decision (fst (evaluate_asset example_platform example_world
             faulty_investor faulty_asset True)))
            * d_confidence (fst (evaluate_asset example_platform example_world faulty_investor
                faulty_asset True))"
    using t by blast
  then have score: "d_score (fst (evaluate_asset example_platform example_world faulty_investor
                 faulty_asset True)) = 0.35"
    unfolding dec conf by (simp add: decision_weight_def)
  show ?thesis
    unfolding e1 e3 using f eq tree dec conf score by simp
qed

text \<open>
  C10. In the lookups written \<open>a or b\<close> a field that is present with a falsy value (0,
  0.0, the empty string, False, an empty list or dictionary, None) is treated as absent.
  The carbon rule gives the same result as for the asset without \<open>carbon_emissions\<close>, and
  the carbon it records and compares is that of \<open>carbon_score\<close>: an asset with carbon
  emissions 0 is rejected when its carbon score exceeds the investor's limit. The
  return-and-risk rule gives the same result as for the asset without \<open>volatility\<close>
  (likewise without \<open>beta\<close>), and the volatility it records and compares is that of
  \<open>beta\<close> when beta is truthy and that of \<open>stddev\<close> otherwise, never the value 0 of
  \<open>volatility\<close>: with a beta above the limit the asset is deprioritized.
\<close>

theorem falsy_field_is_treated_as_absent:
  "(\<not> truthy (dict_get asset ''carbon_emissions'') \<longrightarrow>
      rule_exclude_by_carbon P investor asset =
      rule_exclude_by_carbon P investor (dict_del asset ''carbon_emissions''))
   \<and> (\<not> truthy (dict_get asset ''volatility'') \<longrightarrow>
      rule_return_and_risk P investor asset =
      rule_return_and_risk P investor (dict_del asset ''volatility''))
   \<and> (\<not> truthy (dict_get asset ''beta'') \<longrightarrow>
      rule_return_and_risk P investor asset =
      rule_return_and_risk P investor (dict_del asset ''beta''))
   \<and> (\<not> truthy (dict_get asset ''carbon_emissions'') \<longrightarrow>
      outcome_of (rule_exclude_by_carbon P investor asset) \<noteq> None \<longrightarrow>
      evidence_field (rule_exclude_by_carbon P investor asset) ''carbon''
        = Some (float_evidence P (dict_get asset ''carbon_score'')))
   \<and> (dict_get asset ''carbon_emissions'' = PInt 0 \<longrightarrow>
      dict_get asset ''carbon_score'' = PFloat (Finite c) \<longrightarrow>
      dict_get investor ''max_carbon_score'' = PFloat (Finite m) \<longrightarrow> m < c \<longrightarrow>
      rule_exclude_by_carbon P investor asset =
        Inr \<lparr>res_outcome = Some Reject, res_rule = Some ''exclude_by_carbon'',
             res_evidence = PDict [(''carbon'', PFloat (Finite c)),
                                   (''max_allowed'', PFloat (Finite m))],
             res_confidence = Some 0.9,
             res_note = Some (''Asset carbon '' @ float_repr P c @ '' > investor max ''
                               @ float_repr P m)\<rparr>)
   \<and> (\<not> truthy (dict_get asset ''volatility'') \<longrightarrow> truthy (dict_get asset ''beta'') \<longrightarrow>
      outcome_of (rule_return_and_risk P investor asset) \<noteq> None \<longrightarrow>
      evidence_field (rule_return_and_risk P investor asset) ''volatility''
        = Some (float_evidence P (dict_get asset ''beta'')))
   \<and> (\<not> truthy (dict_get asset ''volatility'') \<longrightarrow> \<not> truthy (dict_get asset ''beta'') \<longrightarrow>
      outcome_of (rule_return_and_risk P investor asset) \<noteq> None \<longrightarrow>
      evidence_field (rule_return_and_risk P investor asset) ''volatility''
        = Some (float_evidence P (dict_get asset ''stddev'')))
   \<and> (\<not> truthy (dict_get asset ''volatility'') \<longrightarrow>
      dict_get asset ''beta'' = PFloat (Finite b) \<longrightarrow> b \<noteq> 0 \<longrightarrow>
      dict_get asset ''expected_return'' = PFloat (Finite er) \<longrightarrow>
      thresholds_for (dict_get_default investor ''risk_tolerance'' (PStr ''medium'')) = Inr t \<longrightarrow>
      fst t < b \<longrightarrow>
      outcome_of (rule_return_and_risk P investor asset) = Some Deprioritize)
   \<and> \<not> truthy (PInt 0) \<and> \<not> truthy (PFloat (Finite 0)) \<and> \<not> truthy (PStr []) \<and> \<not> truthy PNone
   \<and> \<not> truthy (PBool False) \<and> \<not> truthy (PList []) \<and> \<not> truthy (PDict [])"
  using carbon_falsy_absent [of asset P investor] volatility_falsy_absent [of asset P investor]
    beta_falsy_absent [of asset P investor] carbon_zero_rejected_on_score [of asset c investor m P]
    carbon_evidence_is_score [of asset P investor] volatility_evidence_is_beta [of asset P investor]
    volatility_evidence_is_stddev [of asset P investor]
    beta_above_limit_deprioritizes [of asset b er investor t P]
  by simp

theorem falsy_field_is_treated_as_absent_witness:
  "\<not> truthy (dict_get falsy_asset ''carbon_emissions'')
   \<and> \<not> truthy (dict_get falsy_asset ''volatility'')
   \<and> \<not> truthy (dict_get falsy_asset ''beta'')
   \<and> dict_get falsy_asset ''carbon_emissions'' = PInt 0
   \<and> dict_get falsy_asset ''carbon_score'' = PFloat (Finite 80)
   \<and> dict_get falsy_investor ''max_carbon_score'' = PFloat (Finite 50)
   \<and> (50 :: real) < 80
   \<and> outcome_of (rule_exclude_by_carbon example_platform falsy_investor falsy_asset) = Some Reject
   \<and> evidence_field (rule_exclude_by_carbon example_platform falsy_investor falsy_asset) ''carbon''
       = Some (PFloat (Finite 80))
   \<and> rule_exclude_by_carbon example_platform falsy_investor falsy_asset =
       rule_exclude_by_carbon example_platform falsy_investor (dict_del falsy_asset ''carbon_emissions'')
   \<and> rule_return_and_risk example_platform falsy_investor falsy_asset =
       rule_return_and_risk example_platform falsy_investor (dict_del falsy_asset ''volatility'')
   \<and> rule_return_and_risk example_platform falsy_investor falsy_asset =
       rule_return_and_risk example_platform falsy_investor (dict_del falsy_asset ''beta'')
   \<and> dict_get falsy_asset ''stddev'' = PFloat (Finite 0.9)
   \<and> outcome_of (rule_return_and_risk example_platform falsy_investor falsy_asset) = Some Deprioritize
   \<and> evidence_field (rule_return_and_risk example_platform falsy_investor falsy_asset) ''volatility''
       = Some (PFloat (Finite 0.9))
   \<and> \<not> truthy (dict_get beta_asset ''volatility'')
   \<and> truthy (dict_get beta_asset ''beta'')
   \<and> dict_get beta_asset ''beta'' = PFloat (Finite 0.9)
   \<and> dict_get beta_asset ''stddev'' = PFloat (Finite 0.05)
   \<and> dict_get beta_asset ''expected_return'' = PFloat (Finite 0.1)
   \<and> thresholds_for (dict_get_default falsy_investor ''risk_tolerance'' (PStr ''medium''))
       = Inr (0.15, 0.03)
   \<and> outcome_of (rule_return_and_risk example_platform falsy_investor beta_asset) = Some Deprioritize
   \<and> evidence_field (rule_return_and_risk example_platform falsy_investor beta_asset) ''volatility''
       = Some (PFloat (Finite 0.9))"
proof -
  have h: "\<not> truthy (dict_get falsy_asset ''carbon_emissions'')"
     "\<not> truthy (dict_get falsy_asset ''volatility'')"
     "\<not> truthy (dict_get falsy_asset ''beta'')"
     "dict_get falsy_asset ''carbon_emissions'' = PInt 0"
     "dict_get falsy_asset ''carbon_score'' = PFloat (Finite 80)"
     "dict_get falsy_investor ''max_carbon_score'' = PFloat (Finite 50)"
     "dict_get falsy_asset ''stddev'' = PFloat (Finite 0.9)"
    by (simp_all add: falsy_asset_def falsy_investor_def dict_get_def)
  have g: "\<not> truthy (dict_get beta_asset ''volatility'')"
     "truthy (dict_get beta_asset ''beta'')"
     "dict_get beta_asset ''beta'' = PFloat (Finite 0.9)"
     "dict_get beta_asset ''stddev'' = PFloat (Finite 0.05)"
     "dict_get beta_asset ''expected_return'' = PFloat (Finite 0.1)"
    by (simp_all add: beta_asset_def dict_get_def)
  have th: "thresholds_for (dict_get_default falsy_investor ''risk_tolerance'' (PStr ''medium''))
       = Inr (0.15, 0.03)"
    by (simp add: thresholds_for_def RISK_THRESHOLDS_def falsy_investor_def dict_get_default_def)
  have fe: "float_evidence example_platform (PFloat (Finite x)) = PFloat (Finite x)" for x
    by (simp add: float_evidence_def float_or_none_def)
  note t1 = falsy_field_is_treated_as_absent
      [of falsy_asset example_platform falsy_investor 80 50 0 0 "(0, 0)"]
  note t2 = falsy_field_is_treated_as_absent
      [of beta_asset example_platform falsy_investor 0 0 "0.9" "0.1" "(0.15, 0.03)"]
  have a: "rule_exclude_by_carbon example_platform falsy_investor falsy_asset =
       rule_exclude_by_carbon example_platform falsy_investor (dict_del falsy_asset ''carbon_emissions'')"
    using t1 h(1) by blast
  have b: "rule_return_and_risk example_platform falsy_investor falsy_asset =
       rule_return_and_risk example_platform falsy_investor (dict_del falsy_asset ''volatility'')"
    using t1 h(2) by blast
  have c: "rule_return_and_risk example_platform falsy_investor falsy_asset =
       rule_return_and_risk example_platform falsy_investor (dict_del falsy_asset ''beta'')"
    using t1 h(3) by blast
  have "(50 :: real) < 80" by simp
  with t1 h(4,5,6) have "rule_exclude_by_carbon example_platform falsy_investor falsy_asset =
        Inr \<lparr>res_outcome = Some Reject, res_rule = Some ''exclude_by_carbon'',
             res_evidence = PDict [(''carbon'', PFloat (Finite 80)),
                                   (''max_allowed'', PFloat (Finite 50))],
             res_confidence = Some 0.9,
             res_note = Some (''Asset carbon '' @ float_repr example_platform 80
                               @ '' > investor max '' @ float_repr example_platform 50)\<rparr>"
    by blast
  then have d: "outcome_of (rule_exclude_by_carbon example_platform falsy_investor falsy_asset)
       = Some Reject"
    by (simp add: outcome_of_def)
  then have "outcome_of (rule_exclude_by_carbon example_platform falsy_investor falsy_asset) \<noteq> None"
    by simp
  with t1 h(1) have "evidence_field (rule_exclude_by_carbon example_platform falsy_investor
       falsy_asset) ''carbon'' = Some (float_evidence example_platform (dict_get falsy_asset ''carbon_score''))"
    by blast
  then have e: "evidence_field (rule_exclude_by_carbon example_platform falsy_investor
       falsy_asset) ''carbon'' = Some (PFloat (Finite 80))"
    by (simp add: h(5) fe)
  have r: "outcome_of (rule_return_and_risk example_platform falsy_investor falsy_asset)
       = Some Deprioritize"
    by (simp add: outcome_of_def rule_return_and_risk_def field_defs thresholds_for_def
          RISK_THRESHOLDS_def float_or_none_def falsy_asset_def falsy_investor_def)
  then have "outcome_of (rule_return_and_risk example_platform falsy_investor falsy_asset) \<noteq> None"
    by simp
  with t1 h(2,3) have "evidence_field (rule_return_and_risk example_platform falsy_investor
       falsy_asset) ''volatility'' = Some (float_evidence example_platform (dict_get falsy_asset ''stddev''))"
    by blast
  then have s: "evidence_field (rule_return_and_risk example_platform falsy_investor
       falsy_asset) ''volatility'' = Some (PFloat (Finite 0.9))"
    by (simp add: h(7) fe)
  have "fst (0.15 :: real, 0.03 :: real) < 0.9" "(0.9 :: real) \<noteq> 0" by simp_all
  with t2 g(1,3,5) th
  have u: "outcome_of (rule_return_and_risk example_platform falsy_investor beta_asset)
       = Some Deprioritize"
    by blast
  then have "outcome_of (rule_return_and_risk example_platform falsy_investor beta_asset) \<noteq> None"
    by simp
  with t2 g(1,2) have "evidence_field (rule_return_and_risk example_platform falsy_investor
       beta_asset) ''volatility'' = Some (float_evidence example_platform (dict_get beta_asset ''beta''))"
    by blast
  then have v: "evidence_field (rule_return_and_risk example_platform falsy_investor
       beta_asset) ''volatility'' = Some (PFloat (Finite 0.9))"
    by (simp add: g(3) fe)
  show ?thesis
    using h g th a b c d e r s u v by (intro conjI) simp_all
qed

text \<open>
  C9. \<open>sha256_of_obj\<close> does not depend on the order of the keys: two mappings with the
  same set of key-value pairs (each with distinct keys, inserted in any order) have the
  same JSON text, written with the keys sorted, and so the same digest, which is the
  hex digest of that text: 64 hexadecimal digits, as \<open>hexdigest()\<close> of SHA-256 gives. The
  same holds for values that differ in the order of the keys of dictionaries nested in
  them. Hashing the same mapping twice gives the same digest, the function having no
  other input.
\<close>

theorem sha256_of_obj_key_order_independent:
  assumes "distinct (map fst d1)" and "distinct (map fst d2)" and "set d1 = set d2"
  shows "sha256_of_obj P (PDict d1) = sha256_of_obj P (PDict d2)
    \<and> json_encode P None 0 (PDict d1) = json_encode P None 0 (PDict d2)
    \<and> sha256_of_obj P (PDict d1) = sha256_hexdigest P (json_encode P None 0 (PDict d1))
    \<and> (hexdigest_contract P \<longrightarrow>
          length (sha256_of_obj P (PDict d1)) = 64
          \<and> set (sha256_of_obj P (PDict d1)) \<subseteq> set ''0123456789abcdef'')
    \<and> (sorted_keys v1 = sorted_keys v2 \<longrightarrow> sha256_of_obj P v1 = sha256_of_obj P v2)"
  using json_encode_same_items [OF assms, of P None 0] sha256_of_obj_sorted_keys [of v1 v2 P]
  by (simp add: sha256_of_obj_def hexdigest_contract_def)

theorem sha256_of_obj_key_order_independent_witness:
  \<open>distinct (map fst ordered_snapshot) \<and> distinct (map fst reordered_snapshot)
   \<and> set ordered_snapshot = set reordered_snapshot
   \<and> ordered_snapshot \<noteq> reordered_snapshot
   \<and> hexdigest_contract example_platform
   \<and> sha256_of_obj example_platform (PDict ordered_snapshot)
       = sha256_of_obj example_platform (PDict reordered_snapshot)
   \<and> json_encode example_platform None 0 (PDict ordered_snapshot)
       = ''{"price": 10, "source": "finnhub", "symbol": "ABC"}''
   \<and> json_encode example_platform None 0 (PDict reordered_snapshot)
       = ''{"price": 10, "source": "finnhub", "symbol": "ABC"}''
   \<and> length (sha256_of_obj example_platform (PDict ordered_snapshot)) = 64
   \<and> sorted_keys (PDict [(''quote'', PDict ordered_snapshot)])
       = sorted_keys (PDict [(''quote'', PDict reordered_snapshot)])
   \<and> sha256_of_obj example_platform (PDict [(''quote'', PDict ordered_snapshot)])
       = sha256_of_obj example_platform (PDict [(''quote'', PDict reordered_snapshot)])\<close>
proof -
  have d: "distinct (map fst ordered_snapshot)" "distinct (map fst reordered_snapshot)"
    by (simp_all add: ordered_snapshot_def reordered_snapshot_def)
  have s: "set ordered_snapshot = set reordered_snapshot"
    by (auto simp: ordered_snapshot_def reordered_snapshot_def)
  have n: "ordered_snapshot \<noteq> reordered_snapshot"
    by (simp add: ordered_snapshot_def reordered_snapshot_def)
  have c: "hexdigest_contract example_platform"
    by (simp add: hexdigest_contract_def example_platform_def)
  have j: \<open>json_encode example_platform None 0 (PDict ordered_snapshot)
       = ''{"price": 10, "source": "finnhub", "symbol": "ABC"}''\<close>
    by code_simp
  have k: "sorted_keys (PDict [(''quote'', PDict ordered_snapshot)])
       = sorted_keys (PDict [(''quote'', PDict reordered_snapshot)])"
    by code_simp
  note t = sha256_of_obj_key_order_independent [OF d s, of example_platform
      "PDict [(''quote'', PDict ordered_snapshot)]" "PDict [(''quote'', PDict reordered_snapshot)]"]
  from t have e: "sha256_of_obj example_platform (PDict ordered_snapshot)
       = sha256_of_obj example_platform (PDict reordered_snapshot)" by blast
  from t have j2: "json_encode example_platform None 0 (PDict ordered_snapshot)
       = json_encode example_platform None 0 (PDict reordered_snapshot)" by blast
  from t c have l: "length (sha256_of_obj example_platform (PDict ordered_snapshot)) = 64" by blast
  from t k have m: "sha256_of_obj example_platform (PDict [(''quote'', PDict ordered_snapshot)])
       = sha256_of_obj example_platform (PDict [(''quote'', PDict reordered_snapshot)])" by blast
  show ?thesis
    using d s n c e j j2 l k m by (intro conjI) simp_all
qed






end
